theory Spec2Isabelle
  imports Complex_Main "HOL-Library.Word"
begin

section \<open>Data model (include/ggml-opencog.h)\<close>

text \<open>
  The \<^verbatim>\<open>float\<close> fields of the source are modelled as real numbers: arithmetic is exact,
  and rounding, infinities and NaN are outside the model. \<^verbatim>\<open>fminf\<close> and \<^verbatim>\<open>fmaxf\<close> are
  \<open>min\<close> and \<open>max\<close>. Every concrete input used below is a dyadic or short decimal
  value.
\<close>

datatype atom_type =
    OPENCOG_ATOM_CONCEPT_NODE
  | OPENCOG_ATOM_PREDICATE_NODE
  | OPENCOG_ATOM_LINK_NODE
  | OPENCOG_ATOM_INHERITANCE_LINK
  | OPENCOG_ATOM_SIMILARITY_LINK
  | OPENCOG_ATOM_IMPLICATION_LINK
  | OPENCOG_ATOM_EVALUATION_LINK
  | OPENCOG_ATOM_TYPE_COUNT

record truth_value =
  strength :: real
  confidence :: real
  count :: real

text \<open>
  The declared ranges of the three fields (the comments of the struct and section 3 of the
  specification): strength and confidence in \<open>[0,1]\<close>, count non-negative.
\<close>

definition tv_in_range :: "truth_value \<Rightarrow> bool" where
  "tv_in_range t \<longleftrightarrow>
     0 \<le> strength t \<and> strength t \<le> 1 \<and>
     0 \<le> confidence t \<and> confidence t \<le> 1 \<and>
     0 \<le> count t"

text \<open>
  A pointer to an atom is the index of the atom in \<open>heap\<close>, the list of all atoms
  allocated so far; \<^verbatim>\<open>malloc\<close> returns the next free index. A pointer that may be
  \<^verbatim>\<open>nullptr\<close> is a \<open>nat option\<close>. A C array passed or stored together with its
  length is a list: \<^verbatim>\<open>n_outgoing\<close>, \<^verbatim>\<open>n_premises\<close>, \<^verbatim>\<open>n_atoms\<close> and \<^verbatim>\<open>n_rules\<close>
  are the lengths of \<open>outgoing\<close>, the premise list, \<open>atoms\<close> and \<open>rules\<close>. The
  embedding tensor and the \<^verbatim>\<open>data\<close> pointer of an atom, and the context, backend and
  buffer of an AtomSpace, are never read by the functions modelled here and are left out.
\<close>

record atom =
  type :: atom_type
  name :: "string option"
  tv :: truth_value
  outgoing :: "nat list"

definition n_outgoing :: "atom \<Rightarrow> nat" where
  "n_outgoing a = length (outgoing a)"

text \<open>
  The memory a call works on: the heap of atoms and the fields of the one
  \<^verbatim>\<open>struct ggml_opencog_atomspace\<close> the call is given.
\<close>

record state =
  heap :: "atom list"
  atoms :: "nat list"
  capacity :: int

definition n_atoms :: "state \<Rightarrow> nat" where
  "n_atoms st = length (atoms st)"

text \<open>
  A pointer is live when it points into the heap. The source never checks a pointer it
  is given; reading or writing through a dangling pointer is undefined there, and the
  value of \<open>heap st ! a\<close> is unspecified here. A statement about what is stored through a
  pointer assumes that the pointer is live.
\<close>

definition live :: "state \<Rightarrow> nat \<Rightarrow> bool" where
  "live st a \<longleftrightarrow> a < length (heap st)"

section \<open>Truth value operations (src/ggml-opencog.cpp, lines 186-237)\<close>

definition ggml_opencog_tv_create :: "real \<Rightarrow> real \<Rightarrow> real \<Rightarrow> truth_value" where
  "ggml_opencog_tv_create s c n =
     \<lparr>strength = max 0 (min 1 s), confidence = max 0 (min 1 c), count = max 0 n\<rparr>"

definition ggml_opencog_tv_and :: "truth_value \<Rightarrow> truth_value \<Rightarrow> truth_value" where
  "ggml_opencog_tv_and tv1 tv2 =
     (let s1 = strength tv1; s2 = strength tv2;
          c1 = confidence tv1; c2 = confidence tv2
      in ggml_opencog_tv_create (s1 * s2) (c1 * c2) (count tv1 + count tv2))"

definition ggml_opencog_tv_or :: "truth_value \<Rightarrow> truth_value \<Rightarrow> truth_value" where
  "ggml_opencog_tv_or tv1 tv2 =
     (let s1 = strength tv1; s2 = strength tv2;
          c1 = confidence tv1; c2 = confidence tv2
      in ggml_opencog_tv_create (s1 + s2 - s1 * s2) (min c1 c2) (max (count tv1) (count tv2)))"

definition ggml_opencog_tv_not :: "truth_value \<Rightarrow> truth_value" where
  "ggml_opencog_tv_not t =
     ggml_opencog_tv_create (1 - strength t) (confidence t) (count t)"

section \<open>AtomSpace (src/ggml-opencog.cpp, lines 32-180)\<close>

definition ggml_opencog_atomspace_init :: "atom list \<Rightarrow> int \<Rightarrow> state" where
  "ggml_opencog_atomspace_init h cap = \<lparr>heap = h, atoms = [], capacity = cap\<rparr>"

definition ggml_opencog_atom_create ::
  "state \<Rightarrow> atom_type \<Rightarrow> string \<Rightarrow> truth_value \<Rightarrow> nat option \<times> state" where
  "ggml_opencog_atom_create st ty nm t =
     (if int (n_atoms st) \<ge> capacity st then (None, st)
      else
        let atom = \<lparr>type = ty, name = Some nm, tv = t, outgoing = []\<rparr>;
            a = length (heap st)
        in (Some a, st\<lparr>heap := heap st @ [atom], atoms := atoms st @ [a]\<rparr>))"

definition ggml_opencog_link_create ::
  "state \<Rightarrow> atom_type \<Rightarrow> nat list \<Rightarrow> truth_value \<Rightarrow> nat option \<times> state" where
  "ggml_opencog_link_create st ty outg t =
     (if int (n_atoms st) \<ge> capacity st then (None, st)
      else
        let link = \<lparr>type = ty, name = None, tv = t, outgoing = outg\<rparr>;
            a = length (heap st)
        in (Some a, st\<lparr>heap := heap st @ [link], atoms := atoms st @ [a]\<rparr>))"

text \<open>A sequence of creation calls on one AtomSpace, with the handle each call returned.\<close>

datatype creation =
    Create_atom atom_type string truth_value
  | Create_link atom_type "nat list" truth_value

fun create :: "state \<Rightarrow> creation \<Rightarrow> nat option \<times> state" where
  "create st (Create_atom ty nm t) = ggml_opencog_atom_create st ty nm t"
| "create st (Create_link ty outg t) = ggml_opencog_link_create st ty outg t"

fun create_all :: "state \<Rightarrow> creation list \<Rightarrow> nat option list \<times> state" where
  "create_all st [] = ([], st)"
| "create_all st (c # cs) =
     (case create st c of (r, st') \<Rightarrow>
        (case create_all st' cs of (rs, st'') \<Rightarrow> (r # rs, st'')))"

section \<open>Inference rules (src/ggml-opencog.cpp, lines 243-331)\<close>

definition ggml_opencog_rule_modus_ponens_precondition :: "state \<Rightarrow> nat list \<Rightarrow> bool" where
  "ggml_opencog_rule_modus_ponens_precondition st premises =
     (if length premises \<noteq> 2 then False
      else
        let p = premises ! 0;
            implication = heap st ! (premises ! 1)
        in if type implication \<noteq> OPENCOG_ATOM_IMPLICATION_LINK then False
           else if n_outgoing implication \<noteq> 2 then False
           else outgoing implication ! 0 = p)"

definition ggml_opencog_rule_modus_ponens_conclusion ::
  "state \<Rightarrow> nat list \<Rightarrow> nat option \<times> state" where
  "ggml_opencog_rule_modus_ponens_conclusion st premises =
     (if \<not> ggml_opencog_rule_modus_ponens_precondition st premises then (None, st)
      else
        let p = heap st ! (premises ! 0);
            implication = heap st ! (premises ! 1);
            q = outgoing implication ! 1;
            tv_p = tv p;
            tv_imp = tv implication;
            new_tv = ggml_opencog_tv_create
                       (strength tv_p * strength tv_imp)
                       (confidence tv_p * confidence tv_imp)
                       (min (count tv_p) (count tv_imp));
            q_atom = heap st ! q
        in (Some q,
            st\<lparr>heap := (heap st)[q := q_atom\<lparr>tv := ggml_opencog_tv_or (tv q_atom) new_tv\<rparr>]\<rparr>))"

definition ggml_opencog_rule_inheritance_precondition :: "state \<Rightarrow> nat list \<Rightarrow> bool" where
  "ggml_opencog_rule_inheritance_precondition st premises =
     (if length premises \<noteq> 2 then False
      else
        let inh1 = heap st ! (premises ! 0);
            inh2 = heap st ! (premises ! 1)
        in if type inh1 \<noteq> OPENCOG_ATOM_INHERITANCE_LINK then False
           else if type inh2 \<noteq> OPENCOG_ATOM_INHERITANCE_LINK then False
           else if n_outgoing inh1 \<noteq> 2 \<or> n_outgoing inh2 \<noteq> 2 then False
           else outgoing inh1 ! 1 = outgoing inh2 ! 0)"

definition ggml_opencog_rule_inheritance_conclusion ::
  "state \<Rightarrow> nat list \<Rightarrow> nat option \<times> state" where
  "ggml_opencog_rule_inheritance_conclusion st premises =
     (if \<not> ggml_opencog_rule_inheritance_precondition st premises then (None, st)
      else
        let inh1 = heap st ! (premises ! 0);
            inh2 = heap st ! (premises ! 1);
            a = outgoing inh1 ! 0;
            c = outgoing inh2 ! 1;
            new_tv = ggml_opencog_tv_create
                       (strength (tv inh1) * strength (tv inh2))
                       (confidence (tv inh1) * confidence (tv inh2) * 0.9)
                       (min (count (tv inh1)) (count (tv inh2)))
        in ggml_opencog_link_create st OPENCOG_ATOM_INHERITANCE_LINK [a, c] new_tv)"

section \<open>Unified Rule Engine (src/ggml-opencog.cpp, lines 337-414)\<close>

text \<open>
  The two function pointers of a rule range over the rule functions this repository
  defines; calling through the pointer is \<open>call_precondition\<close> and \<open>call_conclusion\<close>.
\<close>

datatype precondition_fn = Modus_ponens_precondition | Inheritance_precondition

datatype conclusion_fn = Modus_ponens_conclusion | Inheritance_conclusion

record ggml_opencog_inference_rule =
  rule_name :: string
  precondition :: precondition_fn
  conclusion :: conclusion_fn
  confidence_boost :: real

fun call_precondition :: "precondition_fn \<Rightarrow> state \<Rightarrow> nat list \<Rightarrow> bool" where
  "call_precondition Modus_ponens_precondition = ggml_opencog_rule_modus_ponens_precondition"
| "call_precondition Inheritance_precondition = ggml_opencog_rule_inheritance_precondition"

fun call_conclusion :: "conclusion_fn \<Rightarrow> state \<Rightarrow> nat list \<Rightarrow> nat option \<times> state" where
  "call_conclusion Modus_ponens_conclusion = ggml_opencog_rule_modus_ponens_conclusion"
| "call_conclusion Inheritance_conclusion = ggml_opencog_rule_inheritance_conclusion"

text \<open>The AtomSpace a rule engine points to is the \<open>state\<close> its functions are given.\<close>

record ggml_opencog_ure =
  rules :: "ggml_opencog_inference_rule list"
  max_iterations :: int
  min_confidence :: real

definition ggml_opencog_ure_init :: "int \<Rightarrow> real \<Rightarrow> ggml_opencog_ure" where
  "ggml_opencog_ure_init max_iter min_conf =
     \<lparr>rules = [], max_iterations = max_iter, min_confidence = min_conf\<rparr>"

definition ggml_opencog_ure_add_rule ::
  "ggml_opencog_ure \<Rightarrow> ggml_opencog_inference_rule \<Rightarrow> ggml_opencog_ure" where
  "ggml_opencog_ure_add_rule ure rule = ure\<lparr>rules := rules ure @ [rule]\<rparr>"

text \<open>
  \<^verbatim>\<open>ggml_opencog_ure_forward_chain\<close> is four nested loops with a \<^verbatim>\<open>return\<close> in the
  innermost body. Each loop is a function of the loop variables; its value is either
  \<open>Running made_inference inferences_made st\<close>, when the loop ran to its end, or
  \<open>Returned inferences_made st\<close>, when the \<^verbatim>\<open>return\<close> of line 402 was taken.
  The counter \<^verbatim>\<open>inferences_made\<close> is a C \<^verbatim>\<open>int\<close>: a 32-bit word, read as a signed
  number by \<open>sint\<close>. The increment of line 398 wraps from \<open>2\<^sup>3\<^sup>1 - 1\<close> to \<open>- 2\<^sup>3\<^sup>1\<close>, as the
  two's complement machine does.
\<close>

datatype flow = Running bool "32 word" state | Returned "32 word" state

text \<open>Lines 387-405: the body of the innermost loop, for the pair \<open>(i, j)\<close>.\<close>

definition chain_premises ::
  "ggml_opencog_ure \<Rightarrow> ggml_opencog_inference_rule \<Rightarrow> nat option \<Rightarrow> nat \<Rightarrow> nat \<Rightarrow>
   bool \<Rightarrow> 32 word \<Rightarrow> state \<Rightarrow> flow" where
  "chain_premises ure rule target i j made_inference inferences_made st =
     (let premises = [atoms st ! i, atoms st ! j]
      in if call_precondition (precondition rule) st premises then
           (case call_conclusion (conclusion rule) st premises of
              (None, st') \<Rightarrow> Running made_inference inferences_made st'
            | (Some c, st') \<Rightarrow>
                if confidence (tv (heap st' ! c)) \<ge> min_confidence ure then
                  (if Some c = target then Returned (inferences_made + 1) st'
                   else Running True (inferences_made + 1) st')
                else Running made_inference inferences_made st')
         else Running made_inference inferences_made st)"

text \<open>Line 386: the loop over \<open>j\<close>, entered with \<open>j = i + 1\<close>.\<close>

function chain_pairs ::
  "ggml_opencog_ure \<Rightarrow> ggml_opencog_inference_rule \<Rightarrow> nat option \<Rightarrow> nat \<Rightarrow> nat \<Rightarrow>
   bool \<Rightarrow> 32 word \<Rightarrow> state \<Rightarrow> flow" where
  "chain_pairs ure rule target i j made_inference inferences_made st =
     (if j < n_atoms st then
        (case chain_premises ure rule target i j made_inference inferences_made st of
           Returned n st' \<Rightarrow> Returned n st'
         | Running made' n st' \<Rightarrow> chain_pairs ure rule target i (j + 1) made' n st')
      else Running made_inference inferences_made st)"
  by pat_completeness auto

text \<open>Line 385: the loop over \<open>i\<close>, entered with \<open>i = 0\<close>.\<close>

function chain_atoms ::
  "ggml_opencog_ure \<Rightarrow> ggml_opencog_inference_rule \<Rightarrow> nat option \<Rightarrow> nat \<Rightarrow>
   bool \<Rightarrow> 32 word \<Rightarrow> state \<Rightarrow> flow" where
  "chain_atoms ure rule target i made_inference inferences_made st =
     (if i < n_atoms st then
        (case chain_pairs ure rule target i (i + 1) made_inference inferences_made st of
           Returned n st' \<Rightarrow> Returned n st'
         | Running made' n st' \<Rightarrow> chain_atoms ure rule target (i + 1) made' n st')
      else Running made_inference inferences_made st)"
  by pat_completeness auto

text \<open>Line 381: the loop over the rules, in registration order.\<close>

fun chain_rules ::
  "ggml_opencog_ure \<Rightarrow> ggml_opencog_inference_rule list \<Rightarrow> nat option \<Rightarrow>
   bool \<Rightarrow> 32 word \<Rightarrow> state \<Rightarrow> flow" where
  "chain_rules ure [] target made_inference inferences_made st =
     Running made_inference inferences_made st"
| "chain_rules ure (rule # rest) target made_inference inferences_made st =
     (case chain_atoms ure rule target 0 made_inference inferences_made st of
        Returned n st' \<Rightarrow> Returned n st'
      | Running made' n st' \<Rightarrow> chain_rules ure rest target made' n st')"

text \<open>Lines 377-411: the loop over \<open>iter\<close>, and the \<^verbatim>\<open>return\<close> of line 413.\<close>

function chain_iterations ::
  "ggml_opencog_ure \<Rightarrow> nat option \<Rightarrow> nat \<Rightarrow> 32 word \<Rightarrow> state \<Rightarrow> 32 word \<times> state" where
  "chain_iterations ure target iter inferences_made st =
     (if int iter < max_iterations ure then
        (case chain_rules ure (rules ure) target False inferences_made st of
           Returned n st' \<Rightarrow> (n, st')
         | Running made_inference n st' \<Rightarrow>
             if \<not> made_inference then (n, st')
             else chain_iterations ure target (iter + 1) n st')
      else (inferences_made, st))"
  by pat_completeness auto

definition ggml_opencog_ure_forward_chain ::
  "ggml_opencog_ure \<Rightarrow> nat option \<Rightarrow> state \<Rightarrow> 32 word \<times> state" where
  "ggml_opencog_ure_forward_chain ure target st = chain_iterations ure target 0 0 st"

text \<open>
  One pass of the outer loop over all rules, on the pair of the counter and the AtomSpace.
\<close>

definition chain_pass ::
  "ggml_opencog_ure \<Rightarrow> nat option \<Rightarrow> 32 word \<times> state \<Rightarrow> 32 word \<times> state" where
  "chain_pass ure target c =
     (case chain_rules ure (rules ure) target False (fst c) (snd c) of
        Returned n st' \<Rightarrow> (n, st')
      | Running made_inference n st' \<Rightarrow> (n, st'))"

subsection \<open>The conclusion calls of a run\<close>

text \<open>
  To speak about what happens during a run, the calls of \<^verbatim>\<open>rule->conclusion\<close> (line 394)
  are listed in the order in which the loops make them: what the call returned, whether
  line 396 accepted it, and the memory right after the call. The functions below follow
  the recursion of the loops above and only collect this list.
\<close>

record event =
  produced :: "nat option"
  accepted :: bool
  after :: state

definition premises_log ::
  "ggml_opencog_ure \<Rightarrow> ggml_opencog_inference_rule \<Rightarrow> nat \<Rightarrow> nat \<Rightarrow> state \<Rightarrow> event list" where
  "premises_log ure rule i j st =
     (let premises = [atoms st ! i, atoms st ! j]
      in if call_precondition (precondition rule) st premises then
           (case call_conclusion (conclusion rule) st premises of
              (None, st') \<Rightarrow> [\<lparr>produced = None, accepted = False, after = st'\<rparr>]
            | (Some c, st') \<Rightarrow>
                [\<lparr>produced = Some c,
                  accepted = (confidence (tv (heap st' ! c)) \<ge> min_confidence ure),
                  after = st'\<rparr>])
         else [])"

function pairs_log ::
  "ggml_opencog_ure \<Rightarrow> ggml_opencog_inference_rule \<Rightarrow> nat option \<Rightarrow> nat \<Rightarrow> nat \<Rightarrow>
   bool \<Rightarrow> 32 word \<Rightarrow> state \<Rightarrow> event list" where
  "pairs_log ure rule target i j made_inference inferences_made st =
     (if j < n_atoms st then
        premises_log ure rule i j st @
        (case chain_premises ure rule target i j made_inference inferences_made st of
           Returned n st' \<Rightarrow> []
         | Running made' n st' \<Rightarrow> pairs_log ure rule target i (j + 1) made' n st')
      else [])"
  by pat_completeness auto

function atoms_log ::
  "ggml_opencog_ure \<Rightarrow> ggml_opencog_inference_rule \<Rightarrow> nat option \<Rightarrow> nat \<Rightarrow>
   bool \<Rightarrow> 32 word \<Rightarrow> state \<Rightarrow> event list" where
  "atoms_log ure rule target i made_inference inferences_made st =
     (if i < n_atoms st then
        pairs_log ure rule target i (i + 1) made_inference inferences_made st @
        (case chain_pairs ure rule target i (i + 1) made_inference inferences_made st of
           Returned n st' \<Rightarrow> []
         | Running made' n st' \<Rightarrow> atoms_log ure rule target (i + 1) made' n st')
      else [])"
  by pat_completeness auto

fun rules_log ::
  "ggml_opencog_ure \<Rightarrow> ggml_opencog_inference_rule list \<Rightarrow> nat option \<Rightarrow>
   bool \<Rightarrow> 32 word \<Rightarrow> state \<Rightarrow> event list" where
  "rules_log ure [] target made_inference inferences_made st = []"
| "rules_log ure (rule # rest) target made_inference inferences_made st =
     atoms_log ure rule target 0 made_inference inferences_made st @
     (case chain_atoms ure rule target 0 made_inference inferences_made st of
        Returned n st' \<Rightarrow> []
      | Running made' n st' \<Rightarrow> rules_log ure rest target made' n st')"

function iterations_log ::
  "ggml_opencog_ure \<Rightarrow> nat option \<Rightarrow> nat \<Rightarrow> 32 word \<Rightarrow> state \<Rightarrow> event list" where
  "iterations_log ure target iter inferences_made st =
     (if int iter < max_iterations ure then
        rules_log ure (rules ure) target False inferences_made st @
        (case chain_rules ure (rules ure) target False inferences_made st of
           Returned n st' \<Rightarrow> []
         | Running made_inference n st' \<Rightarrow>
             if \<not> made_inference then []
             else iterations_log ure target (iter + 1) n st')
      else [])"
  by pat_completeness auto

definition forward_chain_log :: "ggml_opencog_ure \<Rightarrow> nat option \<Rightarrow> state \<Rightarrow> event list" where
  "forward_chain_log ure target st = iterations_log ure target 0 0 st"

subsection \<open>Invariants of the list of conclusion calls\<close>

text \<open>
  A conclusion call \<open>hits\<close> the target when it returned the target atom and line 396
  accepted it. \<open>memory_after st es\<close> is the memory the last of the calls \<open>es\<close> left, and
  \<open>st\<close> when there was no call. \<open>log_ok\<close> relates the calls of a loop to the value of the
  loop: the counter grew by the number of accepted calls; the memory is the one the last
  call left; a loop that ran to its end made no call that hits the target; a loop that
  returned did so at its last call, which hits the target. \<open>run_ok\<close> is the same for a
  whole run.
\<close>

definition hits :: "nat option \<Rightarrow> event \<Rightarrow> bool" where
  "hits target e \<longleftrightarrow> produced e = target \<and> accepted e"

definition memory_after :: "state \<Rightarrow> event list \<Rightarrow> state" where
  "memory_after st es = (if es = [] then st else after (last es))"

definition log_ok ::
  "nat option \<Rightarrow> 32 word \<Rightarrow> state \<Rightarrow> event list \<Rightarrow> flow \<Rightarrow> bool" where
  "log_ok target n st es r =
     (case r of
        Running m' n' st' \<Rightarrow>
          n' = n + of_nat (length (filter accepted es)) \<and> st' = memory_after st es \<and>
          (\<forall>e \<in> set es. \<not> hits target e)
      | Returned n' st' \<Rightarrow>
          n' = n + of_nat (length (filter accepted es)) \<and> st' = memory_after st es \<and>
          es \<noteq> [] \<and> hits target (last es) \<and>
          (\<forall>e \<in> set (butlast es). \<not> hits target e))"

definition run_ok ::
  "nat option \<Rightarrow> 32 word \<Rightarrow> state \<Rightarrow> event list \<Rightarrow> 32 word \<times> state \<Rightarrow> bool" where
  "run_ok target n st es r \<longleftrightarrow>
     fst r = n + of_nat (length (filter accepted es)) \<and> snd r = memory_after st es \<and>
     (\<forall>k < length es. hits target (es ! k) \<longrightarrow> Suc k = length es)"

subsection \<open>The measure of the loops\<close>

text \<open>
  A conclusion call keeps the capacity and either keeps the atom count or, having had
  room, adds one atom. \<open>grows\<close> is the reflexive and transitive relation this gives
  between the memory before and after any number of calls; the distance of \<open>n_atoms\<close>
  from \<open>capacity\<close> bounds how often the loops over \<open>i\<close> and \<open>j\<close> can see their bound
  move.
\<close>

definition grows :: "state \<Rightarrow> state \<Rightarrow> bool" where
  "grows st st' \<longleftrightarrow>
     capacity st' = capacity st \<and>
     (n_atoms st' = n_atoms st \<or> (n_atoms st < n_atoms st' \<and> int (n_atoms st') \<le> capacity st))"

section \<open>Example AtomSpaces\<close>

text \<open>
  Three concepts \<open>P\<close>, \<open>Q\<close>, \<open>R\<close> and the implications \<open>P \<rightarrow> Q\<close> and \<open>P \<rightarrow> R\<close>; the first
  implication has confidence \<open>1/2\<close>, the second confidence \<open>1\<close>.
\<close>

definition implication_space :: state where
  "implication_space =
     \<lparr>heap =
        [\<lparr>type = OPENCOG_ATOM_CONCEPT_NODE, name = Some ''P'',
          tv = \<lparr>strength = 1, confidence = 1/2, count = 1\<rparr>, outgoing = []\<rparr>,
         \<lparr>type = OPENCOG_ATOM_CONCEPT_NODE, name = Some ''Q'',
          tv = \<lparr>strength = 1/2, confidence = 1, count = 1\<rparr>, outgoing = []\<rparr>,
         \<lparr>type = OPENCOG_ATOM_CONCEPT_NODE, name = Some ''R'',
          tv = \<lparr>strength = 1/2, confidence = 1, count = 1\<rparr>, outgoing = []\<rparr>,
         \<lparr>type = OPENCOG_ATOM_IMPLICATION_LINK, name = None,
          tv = \<lparr>strength = 1, confidence = 1/2, count = 1\<rparr>, outgoing = [0, 1]\<rparr>,
         \<lparr>type = OPENCOG_ATOM_IMPLICATION_LINK, name = None,
          tv = \<lparr>strength = 1, confidence = 1, count = 1\<rparr>, outgoing = [0, 2]\<rparr>],
      atoms = [0, 1, 2, 3, 4],
      capacity = 8\<rparr>"

text \<open>Rule engines with one rule, one pass and the threshold \<open>1/2\<close>.\<close>

definition modus_ponens_rule :: ggml_opencog_inference_rule where
  "modus_ponens_rule =
     \<lparr>rule_name = ''Modus Ponens'', precondition = Modus_ponens_precondition,
      conclusion = Modus_ponens_conclusion, confidence_boost = 0\<rparr>"

definition inheritance_rule :: ggml_opencog_inference_rule where
  "inheritance_rule =
     \<lparr>rule_name = ''Inheritance Transitivity'', precondition = Inheritance_precondition,
      conclusion = Inheritance_conclusion, confidence_boost = 0\<rparr>"

definition modus_ponens_engine :: ggml_opencog_ure where
  "modus_ponens_engine =
     ggml_opencog_ure_add_rule (ggml_opencog_ure_init 1 (1/2)) modus_ponens_rule"

definition inheritance_engine :: ggml_opencog_ure where
  "inheritance_engine =
     ggml_opencog_ure_add_rule (ggml_opencog_ure_init 1 (1/2)) inheritance_rule"

text \<open>
  Three concepts \<open>A\<close>, \<open>B\<close>, \<open>C\<close> and the inheritance links \<open>A \<rightarrow> B\<close> and \<open>B \<rightarrow> C\<close>,
  in an AtomSpace with room for more atoms.
\<close>

definition inheritance_space :: state where
  "inheritance_space =
     \<lparr>heap =
        [\<lparr>type = OPENCOG_ATOM_CONCEPT_NODE, name = Some ''A'',
          tv = \<lparr>strength = 1, confidence = 1, count = 1\<rparr>, outgoing = []\<rparr>,
         \<lparr>type = OPENCOG_ATOM_CONCEPT_NODE, name = Some ''B'',
          tv = \<lparr>strength = 1, confidence = 1, count = 1\<rparr>, outgoing = []\<rparr>,
         \<lparr>type = OPENCOG_ATOM_CONCEPT_NODE, name = Some ''C'',
          tv = \<lparr>strength = 1, confidence = 1, count = 1\<rparr>, outgoing = []\<rparr>,
         \<lparr>type = OPENCOG_ATOM_INHERITANCE_LINK, name = None,
          tv = \<lparr>strength = 1/2, confidence = 1/2, count = 1\<rparr>, outgoing = [0, 1]\<rparr>,
         \<lparr>type = OPENCOG_ATOM_INHERITANCE_LINK, name = None,
          tv = \<lparr>strength = 1/2, confidence = 1/2, count = 1\<rparr>, outgoing = [1, 2]\<rparr>],
      atoms = [0, 1, 2, 3, 4],
      capacity = 8\<rparr>"

text \<open>The same atoms in an AtomSpace created with capacity 5, which they fill.\<close>

definition full_inheritance_space :: state where
  "full_inheritance_space = inheritance_space\<lparr>capacity := 5\<rparr>"

text \<open>An AtomSpace of capacity 1 holding one concept.\<close>

definition single_space :: state where
  "single_space =
     \<lparr>heap = [\<lparr>type = OPENCOG_ATOM_CONCEPT_NODE, name = Some ''A'',
               tv = \<lparr>strength = 1/2, confidence = 1/2, count = 1\<rparr>, outgoing = []\<rparr>],
      atoms = [0],
      capacity = 1\<rparr>"

text \<open>Two concepts and no link: no pair of atoms satisfies a precondition.\<close>

definition concept_space :: state where
  "concept_space =
     \<lparr>heap =
        [\<lparr>type = OPENCOG_ATOM_CONCEPT_NODE, name = Some ''A'',
          tv = \<lparr>strength = 1, confidence = 1, count = 1\<rparr>, outgoing = []\<rparr>,
         \<lparr>type = OPENCOG_ATOM_CONCEPT_NODE, name = Some ''B'',
          tv = \<lparr>strength = 1, confidence = 1, count = 1\<rparr>, outgoing = []\<rparr>],
      atoms = [0, 1],
      capacity = 8\<rparr>"

definition both_rules_engine :: ggml_opencog_ure where
  "both_rules_engine =
     ggml_opencog_ure_add_rule
       (ggml_opencog_ure_add_rule (ggml_opencog_ure_init 10 (1/2)) modus_ponens_rule)
       inheritance_rule"

text \<open>
  One concept \<open>P\<close> and two implications \<open>P \<rightarrow> P\<close>, all with the truth value \<open>(1, 1, 1)\<close>:
  every pass of modus ponens accepts two inferences and leaves the memory as it was. The
  rule engine makes \<open>2\<^sup>3\<^sup>0\<close> passes.
\<close>

definition loop_space :: state where
  "loop_space =
     \<lparr>heap =
        [\<lparr>type = OPENCOG_ATOM_CONCEPT_NODE, name = Some ''P'',
          tv = \<lparr>strength = 1, confidence = 1, count = 1\<rparr>, outgoing = []\<rparr>,
         \<lparr>type = OPENCOG_ATOM_IMPLICATION_LINK, name = None,
          tv = \<lparr>strength = 1, confidence = 1, count = 1\<rparr>, outgoing = [0, 0]\<rparr>,
         \<lparr>type = OPENCOG_ATOM_IMPLICATION_LINK, name = None,
          tv = \<lparr>strength = 1, confidence = 1, count = 1\<rparr>, outgoing = [0, 0]\<rparr>],
      atoms = [0, 1, 2],
      capacity = 3\<rparr>"

definition loop_engine :: ggml_opencog_ure where
  "loop_engine =
     ggml_opencog_ure_add_rule (ggml_opencog_ure_init 1073741824 (1/2)) modus_ponens_rule"

section \<open>Properties of the truth value algebra\<close>

lemma tv_create_in_range: "tv_in_range (ggml_opencog_tv_create s c n)"
  by (simp add: tv_in_range_def ggml_opencog_tv_create_def)

lemma tv_create_id:
  "0 \<le> s \<Longrightarrow> s \<le> 1 \<Longrightarrow> 0 \<le> c \<Longrightarrow> c \<le> 1 \<Longrightarrow> 0 \<le> n \<Longrightarrow>
   ggml_opencog_tv_create s c n = \<lparr>strength = s, confidence = c, count = n\<rparr>"
  by (simp add: ggml_opencog_tv_create_def)

lemma union_strength_bounds:
  fixes s :: real
  assumes "0 \<le> s" "s \<le> 1"
  shows "0 \<le> s + s - s * s" and "s + s - s * s \<le> 1"
proof -
  have "s * s \<le> s * 1"
    using assms by (intro mult_left_mono) simp_all
  then show "0 \<le> s + s - s * s"
    using assms by simp
  have "0 \<le> (1 - s) * (1 - s)"
    by simp
  then show "s + s - s * s \<le> 1"
    by (simp add: algebra_simps)
qed

lemma union_strength_fixed:
  fixes s :: real
  shows "s + s - s * s = s \<longleftrightarrow> s = 0 \<or> s = 1"
proof -
  have "s + s - s * s = s \<longleftrightarrow> s * (1 - s) = 0"
    by (simp add: algebra_simps)
  then show ?thesis
    by auto
qed

text \<open>
  C1 (as stated): OR-combining a truth value with itself returns it unchanged. This fails:
  for \<open>(0.5, 0.5, 1)\<close> the strength becomes \<open>0.5 + 0.5 - 0.25 = 0.75\<close>.
\<close>

theorem tv_or_self_counterexample:
  "ggml_opencog_tv_or \<lparr>strength = 1/2, confidence = 1/2, count = 1\<rparr>
                      \<lparr>strength = 1/2, confidence = 1/2, count = 1\<rparr>
     = \<lparr>strength = 3/4, confidence = 1/2, count = 1\<rparr>
   \<and> ggml_opencog_tv_or \<lparr>strength = 1/2, confidence = 1/2, count = 1\<rparr>
                        \<lparr>strength = 1/2, confidence = 1/2, count = 1\<rparr>
     \<noteq> \<lparr>strength = 1/2, confidence = 1/2, count = 1\<rparr>"
  by (simp add: ggml_opencog_tv_or_def ggml_opencog_tv_create_def)

text \<open>
  C1 (amended): for every truth value whose fields are in range, OR-combining it with
  itself keeps confidence and count and gives the strength \<open>s + s - s * s\<close>; the result
  is the original truth value exactly when the strength is 0 or 1.
\<close>

theorem tv_or_self:
  assumes "tv_in_range t"
  shows "ggml_opencog_tv_or t t
           = t\<lparr>strength := strength t + strength t - strength t * strength t\<rparr>
         \<and> (ggml_opencog_tv_or t t = t \<longleftrightarrow> strength t = 0 \<or> strength t = 1)"
proof -
  let ?s = "strength t"
  from assms have r: "0 \<le> ?s" "?s \<le> 1" "0 \<le> confidence t" "confidence t \<le> 1" "0 \<le> count t"
    by (simp_all add: tv_in_range_def)
  have "ggml_opencog_tv_or t t =
          \<lparr>strength = ?s + ?s - ?s * ?s, confidence = confidence t, count = count t\<rparr>"
    unfolding ggml_opencog_tv_or_def Let_def
    using r union_strength_bounds [OF r(1,2)] by (simp add: tv_create_id)
  then have eq: "ggml_opencog_tv_or t t = t\<lparr>strength := ?s + ?s - ?s * ?s\<rparr>"
    by simp
  have "t\<lparr>strength := ?s + ?s - ?s * ?s\<rparr> = t \<longleftrightarrow> ?s + ?s - ?s * ?s = ?s"
    by (cases t) simp
  then have "ggml_opencog_tv_or t t = t \<longleftrightarrow> ?s = 0 \<or> ?s = 1"
    using eq union_strength_fixed [of ?s] by simp
  with eq show ?thesis
    by simp
qed

theorem tv_or_self_witness:
  "tv_in_range \<lparr>strength = 1, confidence = 1/2, count = 3\<rparr>
   \<and> ggml_opencog_tv_or \<lparr>strength = 1, confidence = 1/2, count = 3\<rparr>
                        \<lparr>strength = 1, confidence = 1/2, count = 3\<rparr>
     = \<lparr>strength = 1, confidence = 1/2, count = 3\<rparr>"
proof -
  have h: "tv_in_range \<lparr>strength = 1, confidence = 1/2, count = 3\<rparr>"
    by (simp add: tv_in_range_def)
  show ?thesis
    using h tv_or_self [OF h] by simp
qed

text \<open>
  C6: the algebra on the specification's concrete instances. The count of a truth value
  is non-negative in the data model, which is the hypothesis on \<open>x\<close>.
\<close>

theorem tv_algebra_instances:
  assumes "0 \<le> x"
  shows "ggml_opencog_tv_and \<lparr>strength = 0.8, confidence = 0.9, count = 5\<rparr>
                             \<lparr>strength = 0.6, confidence = 0.7, count = 3\<rparr>
           = \<lparr>strength = 0.48, confidence = 0.63, count = 8\<rparr>
       \<and> strength (ggml_opencog_tv_or \<lparr>strength = 0.8, confidence = 0.9, count = 5\<rparr>
                                      \<lparr>strength = 0.6, confidence = 0.7, count = 3\<rparr>) = 0.92
       \<and> confidence (ggml_opencog_tv_or \<lparr>strength = 0.8, confidence = 0.9, count = 5\<rparr>
                                        \<lparr>strength = 0.6, confidence = 0.7, count = 3\<rparr>) = 0.7
       \<and> ggml_opencog_tv_not \<lparr>strength = 0.8, confidence = 0.9, count = x\<rparr>
           = \<lparr>strength = 0.2, confidence = 0.9, count = x\<rparr>"
  using assms
  by (simp add: ggml_opencog_tv_and_def ggml_opencog_tv_or_def ggml_opencog_tv_not_def
        ggml_opencog_tv_create_def)

theorem tv_algebra_instances_witness:
  "(0::real) \<le> 5
   \<and> ggml_opencog_tv_not \<lparr>strength = 0.8, confidence = 0.9, count = 5\<rparr>
       = \<lparr>strength = 0.2, confidence = 0.9, count = 5\<rparr>"
  using tv_algebra_instances [of 5] by simp

text \<open>
  C7: the constructor clamps: a strength or confidence below 0 becomes 0, one above 1
  becomes 1, a negative count becomes 0, and a field in range is kept; so
  \<open>create 1.5 (-0.5) (-1) = (1, 0, 0)\<close>. Each of \<open>and\<close>, \<open>or\<close> and \<open>not\<close> is the constructor
  applied to its formula, and every operation returns a truth value whose fields are in
  range, whatever its arguments are.
\<close>

theorem tv_operations_clamped:
  "ggml_opencog_tv_create 1.5 (- 0.5) (- 1) = \<lparr>strength = 1, confidence = 0, count = 0\<rparr>
   \<and> ggml_opencog_tv_create s c n
       = \<lparr>strength = (if s < 0 then 0 else if 1 < s then 1 else s),
          confidence = (if c < 0 then 0 else if 1 < c then 1 else c),
          count = (if n < 0 then 0 else n)\<rparr>
   \<and> ggml_opencog_tv_and tv1 tv2
       = ggml_opencog_tv_create (strength tv1 * strength tv2) (confidence tv1 * confidence tv2)
           (count tv1 + count tv2)
   \<and> ggml_opencog_tv_or tv1 tv2
       = ggml_opencog_tv_create (strength tv1 + strength tv2 - strength tv1 * strength tv2)
           (min (confidence tv1) (confidence tv2)) (max (count tv1) (count tv2))
   \<and> ggml_opencog_tv_not t
       = ggml_opencog_tv_create (1 - strength t) (confidence t) (count t)
   \<and> tv_in_range (ggml_opencog_tv_create s c n)
   \<and> tv_in_range (ggml_opencog_tv_and tv1 tv2)
   \<and> tv_in_range (ggml_opencog_tv_or tv1 tv2)
   \<and> tv_in_range (ggml_opencog_tv_not t)"
proof -
  have inst: "ggml_opencog_tv_create 1.5 (- 0.5) (- 1)
                = \<lparr>strength = 1, confidence = 0, count = 0\<rparr>"
    by (simp add: ggml_opencog_tv_create_def)
  have clamp: "ggml_opencog_tv_create s c n
       = \<lparr>strength = (if s < 0 then 0 else if 1 < s then 1 else s),
          confidence = (if c < 0 then 0 else if 1 < c then 1 else c),
          count = (if n < 0 then 0 else n)\<rparr>"
    by (simp add: ggml_opencog_tv_create_def max_def min_def)
  have ops: "ggml_opencog_tv_and tv1 tv2
       = ggml_opencog_tv_create (strength tv1 * strength tv2) (confidence tv1 * confidence tv2)
           (count tv1 + count tv2)"
    "ggml_opencog_tv_or tv1 tv2
       = ggml_opencog_tv_create (strength tv1 + strength tv2 - strength tv1 * strength tv2)
           (min (confidence tv1) (confidence tv2)) (max (count tv1) (count tv2))"
    "ggml_opencog_tv_not t
       = ggml_opencog_tv_create (1 - strength t) (confidence t) (count t)"
    by (simp_all add: ggml_opencog_tv_and_def ggml_opencog_tv_or_def ggml_opencog_tv_not_def
          Let_def)
  have range: "tv_in_range (ggml_opencog_tv_create s c n)"
    "tv_in_range (ggml_opencog_tv_and tv1 tv2)"
    "tv_in_range (ggml_opencog_tv_or tv1 tv2)"
    "tv_in_range (ggml_opencog_tv_not t)"
    unfolding ops by (rule tv_create_in_range)+
  from inst clamp ops range show ?thesis
    by blast
qed

section \<open>Properties of the AtomSpace\<close>

lemma atom_create_full:
  "capacity st \<le> int (n_atoms st) \<Longrightarrow> ggml_opencog_atom_create st ty nm t = (None, st)"
  by (simp add: ggml_opencog_atom_create_def)

lemma link_create_full:
  "capacity st \<le> int (n_atoms st) \<Longrightarrow> ggml_opencog_link_create st ty outg t = (None, st)"
  by (simp add: ggml_opencog_link_create_def)

lemma atom_create_Some:
  "ggml_opencog_atom_create st ty nm t = (Some a, st') \<Longrightarrow>
   int (n_atoms st) < capacity st \<and> a = length (heap st) \<and>
   st' = st\<lparr>heap := heap st @ [\<lparr>type = ty, name = Some nm, tv = t, outgoing = []\<rparr>],
            atoms := atoms st @ [a]\<rparr>"
  by (auto simp add: ggml_opencog_atom_create_def Let_def split: if_splits)

lemma link_create_Some:
  "ggml_opencog_link_create st ty outg t = (Some a, st') \<Longrightarrow>
   int (n_atoms st) < capacity st \<and> a = length (heap st) \<and>
   st' = st\<lparr>heap := heap st @ [\<lparr>type = ty, name = None, tv = t, outgoing = outg\<rparr>],
            atoms := atoms st @ [a]\<rparr>"
  by (auto simp add: ggml_opencog_link_create_def Let_def split: if_splits)

lemma create_cases:
  "create st c = (r, st') \<Longrightarrow>
     (r = None \<and> st' = st \<and> capacity st \<le> int (n_atoms st))
   \<or> (r = Some (length (heap st)) \<and> int (n_atoms st) < capacity st \<and>
      capacity st' = capacity st \<and> n_atoms st' = Suc (n_atoms st))"
  by (cases c)
     (auto simp add: ggml_opencog_atom_create_def ggml_opencog_link_create_def Let_def n_atoms_def
        split: if_splits)

lemma create_all_fill:
  assumes "create_all st cs = (rs, st')" "int (n_atoms st) \<le> capacity st"
  shows "capacity st' = capacity st \<and>
         int (n_atoms st') = min (int (n_atoms st) + int (length cs)) (capacity st)"
  using assms
proof (induction cs arbitrary: st rs st')
  case Nil
  then show ?case by simp
next
  case (Cons c cs)
  obtain r st1 where c: "create st c = (r, st1)" by (cases "create st c")
  obtain rs1 st2 where cs: "create_all st1 cs = (rs1, st2)" by (cases "create_all st1 cs")
  from Cons.prems c cs have st': "st' = st2" by simp
  from create_cases [OF c] Cons.prems(2)
  have s1: "capacity st1 = capacity st" "int (n_atoms st1) \<le> capacity st1"
    "int (n_atoms st1) = min (int (n_atoms st) + 1) (capacity st)"
    by auto
  from Cons.IH [OF cs s1(2)] s1 st' show ?case
    by auto
qed

lemma create_all_room:
  assumes "create_all st cs = (rs, st')" "int (n_atoms st) + int (length cs) \<le> capacity st"
  shows "None \<notin> set rs"
  using assms
proof (induction cs arbitrary: st rs st')
  case Nil
  then show ?case by simp
next
  case (Cons c cs)
  obtain r st1 where c: "create st c = (r, st1)" by (cases "create st c")
  obtain rs1 st2 where cs: "create_all st1 cs = (rs1, st2)" by (cases "create_all st1 cs")
  from Cons.prems c cs have rs: "rs = r # rs1" by simp
  from create_cases [OF c] Cons.prems(2)
  have s1: "r \<noteq> None" "int (n_atoms st1) + int (length cs) \<le> capacity st1"
    by auto
  from Cons.IH [OF cs s1(2)] s1(1) rs show ?case
    by auto
qed

text \<open>
  C10: a creation call on a full AtomSpace returns null and changes nothing; a successful
  call adds exactly one atom and stays within the capacity; so \<open>n_atoms \<le> capacity\<close>
  is kept by every call; and after \<open>N\<close> creations in a fresh AtomSpace of capacity \<open>N\<close>
  (all of which succeed) one more creation returns null and leaves \<open>n_atoms = N\<close>.
\<close>

theorem atom_count_capacity:
  "(capacity st \<le> int (n_atoms st) \<longrightarrow>
      ggml_opencog_atom_create st ty nm t = (None, st) \<and>
      ggml_opencog_link_create st ty outg t = (None, st))
   \<and> (ggml_opencog_atom_create st ty nm t = (Some a, st') \<longrightarrow>
        n_atoms st' = n_atoms st + 1 \<and> int (n_atoms st') \<le> capacity st')
   \<and> (ggml_opencog_link_create st ty outg t = (Some a, st') \<longrightarrow>
        n_atoms st' = n_atoms st + 1 \<and> int (n_atoms st') \<le> capacity st')
   \<and> (int (n_atoms st) \<le> capacity st \<longrightarrow>
        int (n_atoms (snd (ggml_opencog_atom_create st ty nm t)))
          \<le> capacity (snd (ggml_opencog_atom_create st ty nm t)) \<and>
        int (n_atoms (snd (ggml_opencog_link_create st ty outg t)))
          \<le> capacity (snd (ggml_opencog_link_create st ty outg t)))
   \<and> (length cs = N \<and> create_all (ggml_opencog_atomspace_init h (int N)) cs = (rs, full) \<longrightarrow>
        None \<notin> set rs \<and> n_atoms full = N \<and> create full c = (None, full))"
proof -
  have full: "capacity st \<le> int (n_atoms st) \<longrightarrow>
      ggml_opencog_atom_create st ty nm t = (None, st) \<and>
      ggml_opencog_link_create st ty outg t = (None, st)"
    by (simp add: atom_create_full link_create_full)
  have atom: "ggml_opencog_atom_create st ty nm t = (Some a, st') \<longrightarrow>
        n_atoms st' = n_atoms st + 1 \<and> int (n_atoms st') \<le> capacity st'"
    by (auto dest!: atom_create_Some simp add: n_atoms_def)
  have link: "ggml_opencog_link_create st ty outg t = (Some a, st') \<longrightarrow>
        n_atoms st' = n_atoms st + 1 \<and> int (n_atoms st') \<le> capacity st'"
    by (auto dest!: link_create_Some simp add: n_atoms_def)
  have inv: "int (n_atoms st) \<le> capacity st \<longrightarrow>
        int (n_atoms (snd (ggml_opencog_atom_create st ty nm t)))
          \<le> capacity (snd (ggml_opencog_atom_create st ty nm t)) \<and>
        int (n_atoms (snd (ggml_opencog_link_create st ty outg t)))
          \<le> capacity (snd (ggml_opencog_link_create st ty outg t))"
    by (simp add: ggml_opencog_atom_create_def ggml_opencog_link_create_def Let_def n_atoms_def)
  have fill: "length cs = N \<and> create_all (ggml_opencog_atomspace_init h (int N)) cs = (rs, full) \<longrightarrow>
        None \<notin> set rs \<and> n_atoms full = N \<and> create full c = (None, full)"
  proof
    assume a: "length cs = N \<and> create_all (ggml_opencog_atomspace_init h (int N)) cs = (rs, full)"
    let ?i = "ggml_opencog_atomspace_init h (int N)"
    have i: "n_atoms ?i = 0" "capacity ?i = int N"
      by (simp_all add: ggml_opencog_atomspace_init_def n_atoms_def)
    from a i have r: "None \<notin> set rs"
      by (intro create_all_room [of ?i cs rs full]) simp_all
    from a i create_all_fill [of ?i cs rs full]
    have n: "capacity full = int N" "n_atoms full = N"
      by simp_all
    then have "create full c = (None, full)"
      by (cases c) (simp_all add: atom_create_full link_create_full)
    with r n show "None \<notin> set rs \<and> n_atoms full = N \<and> create full c = (None, full)"
      by simp
  qed
  from full atom link inv fill show ?thesis
    by blast
qed

theorem atom_count_capacity_witness:
  "int (n_atoms (ggml_opencog_atomspace_init [] 1)) < capacity (ggml_opencog_atomspace_init [] 1)
   \<and> ggml_opencog_atom_create (ggml_opencog_atomspace_init [] 1) OPENCOG_ATOM_CONCEPT_NODE ''A''
        \<lparr>strength = 1/2, confidence = 1/2, count = 1\<rparr> = (Some 0, single_space)
   \<and> n_atoms single_space = 1
   \<and> capacity single_space = 1
   \<and> create single_space
        (Create_link OPENCOG_ATOM_INHERITANCE_LINK [0, 0] \<lparr>strength = 1, confidence = 1, count = 1\<rparr>)
      = (None, single_space)"
proof -
  let ?t = "\<lparr>strength = 1/2, confidence = 1/2, count = 1::real\<rparr>"
  let ?E = "ggml_opencog_atomspace_init [] 1"
  let ?c = "Create_link OPENCOG_ATOM_INHERITANCE_LINK [0, 0] \<lparr>strength = 1, confidence = 1, count = 1\<rparr>"
  have e: "int (n_atoms ?E) < capacity ?E"
    by (simp add: ggml_opencog_atomspace_init_def n_atoms_def)
  have c: "ggml_opencog_atom_create ?E OPENCOG_ATOM_CONCEPT_NODE ''A'' ?t = (Some 0, single_space)"
    by (simp add: ggml_opencog_atomspace_init_def ggml_opencog_atom_create_def n_atoms_def
          single_space_def)
  have f: "length [Create_atom OPENCOG_ATOM_CONCEPT_NODE ''A'' ?t] = 1
           \<and> create_all (ggml_opencog_atomspace_init [] (int 1))
               [Create_atom OPENCOG_ATOM_CONCEPT_NODE ''A'' ?t] = ([Some 0], single_space)"
    using c by simp
  have s: "capacity single_space = 1"
    by (simp add: single_space_def)
  from atom_count_capacity
         [of ?E OPENCOG_ATOM_CONCEPT_NODE "''A''" ?t "[]" 0 single_space
             "[Create_atom OPENCOG_ATOM_CONCEPT_NODE ''A'' ?t]" 1 "[]" "[Some 0]" single_space ?c]
       e c f s
  show ?thesis
    by simp
qed

section \<open>Properties of the inference rules\<close>

text \<open>
  C9: a conclusion function called on premises that fail its own precondition returns
  null and leaves the memory (the AtomSpace and every atom) as it was.
\<close>

theorem conclusion_precondition_unmet:
  "(\<not> ggml_opencog_rule_modus_ponens_precondition st premises \<longrightarrow>
      ggml_opencog_rule_modus_ponens_conclusion st premises = (None, st))
   \<and> (\<not> ggml_opencog_rule_inheritance_precondition st premises \<longrightarrow>
      ggml_opencog_rule_inheritance_conclusion st premises = (None, st))"
  by (simp add: ggml_opencog_rule_modus_ponens_conclusion_def
        ggml_opencog_rule_inheritance_conclusion_def)

theorem conclusion_precondition_unmet_witness:
  "\<not> ggml_opencog_rule_modus_ponens_precondition inheritance_space [3, 4]
   \<and> ggml_opencog_rule_modus_ponens_conclusion inheritance_space [3, 4] = (None, inheritance_space)
   \<and> \<not> ggml_opencog_rule_inheritance_precondition inheritance_space [4, 3]
   \<and> ggml_opencog_rule_inheritance_conclusion inheritance_space [4, 3] = (None, inheritance_space)"
proof -
  have m: "\<not> ggml_opencog_rule_modus_ponens_precondition inheritance_space [3, 4]"
    by (simp add: ggml_opencog_rule_modus_ponens_precondition_def inheritance_space_def)
  have i: "\<not> ggml_opencog_rule_inheritance_precondition inheritance_space [4, 3]"
    by (simp add: ggml_opencog_rule_inheritance_precondition_def inheritance_space_def
          n_outgoing_def)
  from conclusion_precondition_unmet [of inheritance_space "[3, 4]"]
       conclusion_precondition_unmet [of inheritance_space "[4, 3]"] m i
  show ?thesis
    by simp
qed

lemma product_in_unit:
  fixes a b :: real
  assumes "0 \<le> a" "a \<le> 1" "0 \<le> b" "b \<le> 1"
  shows "0 \<le> a * b \<and> a * b \<le> 1"
  using assms by (simp add: mult_le_one)

lemma derived_tv_in_range:
  assumes "tv_in_range t1" "tv_in_range t2" "0 \<le> k" "k \<le> 1"
  shows "ggml_opencog_tv_create (strength t1 * strength t2)
           (confidence t1 * confidence t2 * k) (min (count t1) (count t2))
         = \<lparr>strength = strength t1 * strength t2,
            confidence = confidence t1 * confidence t2 * k,
            count = min (count t1) (count t2)\<rparr>"
proof -
  from assms have s: "0 \<le> strength t1 * strength t2 \<and> strength t1 * strength t2 \<le> 1"
    by (intro product_in_unit) (simp_all add: tv_in_range_def)
  from assms have c: "0 \<le> confidence t1 * confidence t2 \<and> confidence t1 * confidence t2 \<le> 1"
    by (intro product_in_unit) (simp_all add: tv_in_range_def)
  with assms have ck: "0 \<le> confidence t1 * confidence t2 * k \<and> confidence t1 * confidence t2 * k \<le> 1"
    by (intro product_in_unit) simp_all
  from assms have "0 \<le> min (count t1) (count t2)"
    by (simp add: tv_in_range_def)
  with s ck show ?thesis
    by (intro tv_create_id) simp_all
qed

text \<open>
  C4: on premises \<open>[P, P \<rightarrow> Q]\<close> that satisfy the precondition, with \<open>Q\<close> a live atom,
  the modus ponens conclusion derives the truth value
  \<open>create (s\<^sub>P * s\<^sub>i\<^sub>m\<^sub>p) (c\<^sub>P * c\<^sub>i\<^sub>m\<^sub>p) (min n\<^sub>P n\<^sub>i\<^sub>m\<^sub>p)\<close>, stores the OR-combination of \<open>Q\<close>'s
  truth value and the derived one in \<open>Q\<close>, changes nothing else and returns \<open>Q\<close>. When
  the truth values of \<open>P\<close> and of the implication are in range, the constructor does not
  clamp: the derived truth value is the triple of the two products and the minimum.
\<close>

theorem modus_ponens_conclusion_effect:
  assumes "ggml_opencog_rule_modus_ponens_precondition st premises"
    and "p = heap st ! (premises ! 0)"
    and "imp = heap st ! (premises ! 1)"
    and "q = outgoing imp ! 1"
    and "live st q"
    and "derived = ggml_opencog_tv_create (strength (tv p) * strength (tv imp))
                     (confidence (tv p) * confidence (tv imp))
                     (min (count (tv p)) (count (tv imp)))"
  shows "ggml_opencog_rule_modus_ponens_conclusion st premises
           = (Some q, st\<lparr>heap := (heap st)
                [q := (heap st ! q)\<lparr>tv := ggml_opencog_tv_or (tv (heap st ! q)) derived\<rparr>]\<rparr>)
         \<and> tv (heap (snd (ggml_opencog_rule_modus_ponens_conclusion st premises)) ! q)
             = ggml_opencog_tv_or (tv (heap st ! q)) derived
         \<and> (tv_in_range (tv p) \<and> tv_in_range (tv imp) \<longrightarrow>
              derived = \<lparr>strength = strength (tv p) * strength (tv imp),
                         confidence = confidence (tv p) * confidence (tv imp),
                         count = min (count (tv p)) (count (tv imp))\<rparr>)"
proof -
  from assms have c: "ggml_opencog_rule_modus_ponens_conclusion st premises
           = (Some q, st\<lparr>heap := (heap st)
                [q := (heap st ! q)\<lparr>tv := ggml_opencog_tv_or (tv (heap st ! q)) derived\<rparr>]\<rparr>)"
    by (simp add: ggml_opencog_rule_modus_ponens_conclusion_def Let_def)
  from c assms(5) have t: "tv (heap (snd (ggml_opencog_rule_modus_ponens_conclusion st premises)) ! q)
             = ggml_opencog_tv_or (tv (heap st ! q)) derived"
    by (simp add: live_def)
  have r: "tv_in_range (tv p) \<and> tv_in_range (tv imp) \<longrightarrow>
              derived = \<lparr>strength = strength (tv p) * strength (tv imp),
                         confidence = confidence (tv p) * confidence (tv imp),
                         count = min (count (tv p)) (count (tv imp))\<rparr>"
    using derived_tv_in_range [of "tv p" "tv imp" 1] assms(6) by simp
  from c t r show ?thesis
    by blast
qed

theorem modus_ponens_conclusion_effect_witness:
  "ggml_opencog_rule_modus_ponens_precondition implication_space [0, 3]
   \<and> live implication_space 1
   \<and> tv_in_range \<lparr>strength = 1, confidence = 1/2, count = 1\<rparr>
   \<and> ggml_opencog_rule_modus_ponens_conclusion implication_space [0, 3]
       = (Some 1, implication_space\<lparr>heap := (heap implication_space)
            [1 := \<lparr>type = OPENCOG_ATOM_CONCEPT_NODE, name = Some ''Q'',
                   tv = \<lparr>strength = 1, confidence = 1/4, count = 1\<rparr>, outgoing = []\<rparr>]\<rparr>)"
proof -
  let ?t = "\<lparr>strength = 1, confidence = 1/2, count = 1::real\<rparr>"
  have pre: "ggml_opencog_rule_modus_ponens_precondition implication_space [0, 3]"
    by (simp add: ggml_opencog_rule_modus_ponens_precondition_def implication_space_def
          n_outgoing_def)
  have p: "heap implication_space ! ([0, 3] ! 0)
             = \<lparr>type = OPENCOG_ATOM_CONCEPT_NODE, name = Some ''P'', tv = ?t, outgoing = []\<rparr>"
    by (simp add: implication_space_def)
  have i: "heap implication_space ! ([0, 3] ! 1)
             = \<lparr>type = OPENCOG_ATOM_IMPLICATION_LINK, name = None, tv = ?t, outgoing = [0, 1]\<rparr>"
    by (simp add: implication_space_def)
  have q: "(1::nat) = outgoing \<lparr>type = OPENCOG_ATOM_IMPLICATION_LINK, name = None, tv = ?t,
                                outgoing = [0, 1]\<rparr> ! 1"
    by simp
  have l: "live implication_space 1"
    by (simp add: live_def implication_space_def)
  have r: "tv_in_range ?t"
    by (simp add: tv_in_range_def)
  have d: "\<lparr>strength = 1, confidence = 1/4, count = 1::real\<rparr>
             = ggml_opencog_tv_create
                 (strength (tv \<lparr>type = OPENCOG_ATOM_CONCEPT_NODE, name = Some ''P'', tv = ?t, outgoing = []\<rparr>)
                  * strength (tv \<lparr>type = OPENCOG_ATOM_IMPLICATION_LINK, name = None, tv = ?t, outgoing = [0, 1]\<rparr>))
                 (confidence (tv \<lparr>type = OPENCOG_ATOM_CONCEPT_NODE, name = Some ''P'', tv = ?t, outgoing = []\<rparr>)
                  * confidence (tv \<lparr>type = OPENCOG_ATOM_IMPLICATION_LINK, name = None, tv = ?t, outgoing = [0, 1]\<rparr>))
                 (min (count (tv \<lparr>type = OPENCOG_ATOM_CONCEPT_NODE, name = Some ''P'', tv = ?t, outgoing = []\<rparr>))
                      (count (tv \<lparr>type = OPENCOG_ATOM_IMPLICATION_LINK, name = None, tv = ?t, outgoing = [0, 1]\<rparr>)))"
    by (simp add: ggml_opencog_tv_create_def)
  have m: "(heap implication_space ! 1)
             \<lparr>tv := ggml_opencog_tv_or (tv (heap implication_space ! 1))
                      \<lparr>strength = 1, confidence = 1/4, count = 1\<rparr>\<rparr>
           = \<lparr>type = OPENCOG_ATOM_CONCEPT_NODE, name = Some ''Q'',
              tv = \<lparr>strength = 1, confidence = 1/4, count = 1\<rparr>, outgoing = []\<rparr>"
    by (simp add: implication_space_def ggml_opencog_tv_or_def ggml_opencog_tv_create_def)
  from modus_ponens_conclusion_effect [OF pre p [symmetric] i [symmetric] q l d] pre l r m
  show ?thesis
    by simp
qed

text \<open>
  C5 (as stated): on premises that satisfy the precondition the inheritance conclusion
  creates and returns a new link. This fails when the AtomSpace is full: the premises
  \<open>[A \<rightarrow> B, B \<rightarrow> C]\<close> satisfy the precondition, and the conclusion returns null and creates
  nothing.
\<close>

theorem inheritance_conclusion_full_counterexample:
  "ggml_opencog_rule_inheritance_precondition full_inheritance_space [3, 4]
   \<and> ggml_opencog_rule_inheritance_conclusion full_inheritance_space [3, 4]
       = (None, full_inheritance_space)"
  by (simp add: ggml_opencog_rule_inheritance_precondition_def
        ggml_opencog_rule_inheritance_conclusion_def ggml_opencog_link_create_def
        full_inheritance_space_def inheritance_space_def n_outgoing_def n_atoms_def)

text \<open>
  C5 (amended): on premises \<open>[A \<rightarrow> B, B \<rightarrow> C]\<close> that satisfy the precondition, the
  inheritance conclusion, when the AtomSpace has room (\<open>n_atoms < capacity\<close>), appends
  and returns a new InheritanceLink \<open>A \<rightarrow> C\<close> with the truth value
  \<open>create (s\<^sub>1 * s\<^sub>2) (c\<^sub>1 * c\<^sub>2 * 0.9) (min n\<^sub>1 n\<^sub>2)\<close>; when the AtomSpace is full it returns null
  and changes nothing. For premises with truth values in range the constructor does not
  clamp, and from \<open>(0.9, 0.8, _)\<close> twice the strength is \<open>0.81\<close> and the confidence
  \<open>0.576\<close>.
\<close>

theorem inheritance_conclusion_effect:
  assumes "ggml_opencog_rule_inheritance_precondition st premises"
    and "inh1 = heap st ! (premises ! 0)"
    and "inh2 = heap st ! (premises ! 1)"
    and "derived = ggml_opencog_tv_create (strength (tv inh1) * strength (tv inh2))
                     (confidence (tv inh1) * confidence (tv inh2) * 0.9)
                     (min (count (tv inh1)) (count (tv inh2)))"
    and "link = \<lparr>type = OPENCOG_ATOM_INHERITANCE_LINK, name = None, tv = derived,
                 outgoing = [outgoing inh1 ! 0, outgoing inh2 ! 1]\<rparr>"
  shows "(int (n_atoms st) < capacity st \<longrightarrow>
            ggml_opencog_rule_inheritance_conclusion st premises
              = (Some (length (heap st)),
                 st\<lparr>heap := heap st @ [link], atoms := atoms st @ [length (heap st)]\<rparr>))
         \<and> (capacity st \<le> int (n_atoms st) \<longrightarrow>
            ggml_opencog_rule_inheritance_conclusion st premises = (None, st))
         \<and> (tv_in_range (tv inh1) \<and> tv_in_range (tv inh2) \<longrightarrow>
              derived = \<lparr>strength = strength (tv inh1) * strength (tv inh2),
                         confidence = confidence (tv inh1) * confidence (tv inh2) * 0.9,
                         count = min (count (tv inh1)) (count (tv inh2))\<rparr>)
         \<and> (strength (tv inh1) = 0.9 \<and> confidence (tv inh1) = 0.8 \<and>
            strength (tv inh2) = 0.9 \<and> confidence (tv inh2) = 0.8 \<longrightarrow>
              strength derived = 0.81 \<and> confidence derived = 0.576)"
proof -
  from assms have a: "int (n_atoms st) < capacity st \<longrightarrow>
            ggml_opencog_rule_inheritance_conclusion st premises
              = (Some (length (heap st)),
                 st\<lparr>heap := heap st @ [link], atoms := atoms st @ [length (heap st)]\<rparr>)"
    by (simp add: ggml_opencog_rule_inheritance_conclusion_def ggml_opencog_link_create_def Let_def)
  from assms have b: "capacity st \<le> int (n_atoms st) \<longrightarrow>
            ggml_opencog_rule_inheritance_conclusion st premises = (None, st)"
    by (simp add: ggml_opencog_rule_inheritance_conclusion_def ggml_opencog_link_create_def Let_def)
  have c: "tv_in_range (tv inh1) \<and> tv_in_range (tv inh2) \<longrightarrow>
              derived = \<lparr>strength = strength (tv inh1) * strength (tv inh2),
                         confidence = confidence (tv inh1) * confidence (tv inh2) * 0.9,
                         count = min (count (tv inh1)) (count (tv inh2))\<rparr>"
    using derived_tv_in_range [of "tv inh1" "tv inh2" "0.9"] assms(4) by simp
  have d: "strength (tv inh1) = 0.9 \<and> confidence (tv inh1) = 0.8 \<and>
            strength (tv inh2) = 0.9 \<and> confidence (tv inh2) = 0.8 \<longrightarrow>
              strength derived = 0.81 \<and> confidence derived = 0.576"
  proof (intro impI, elim conjE)
    assume e: "strength (tv inh1) = 0.9" "confidence (tv inh1) = 0.8"
      "strength (tv inh2) = 0.9" "confidence (tv inh2) = 0.8"
    show "strength derived = 0.81 \<and> confidence derived = 0.576"
      unfolding assms(4) e by (simp add: ggml_opencog_tv_create_def)
  qed
  from a b c d show ?thesis
    by blast
qed

theorem inheritance_conclusion_effect_witness:
  "ggml_opencog_rule_inheritance_precondition inheritance_space [3, 4]
   \<and> int (n_atoms inheritance_space) < capacity inheritance_space
   \<and> tv_in_range \<lparr>strength = 1/2, confidence = 1/2, count = 1\<rparr>
   \<and> ggml_opencog_rule_inheritance_conclusion inheritance_space [3, 4]
       = (Some 5,
          inheritance_space
            \<lparr>heap := heap inheritance_space @
               [\<lparr>type = OPENCOG_ATOM_INHERITANCE_LINK, name = None,
                 tv = \<lparr>strength = 1/4, confidence = 9/40, count = 1\<rparr>, outgoing = [0, 2]\<rparr>],
             atoms := atoms inheritance_space @ [5]\<rparr>)
   \<and> ggml_opencog_rule_inheritance_precondition full_inheritance_space [3, 4]
   \<and> capacity full_inheritance_space \<le> int (n_atoms full_inheritance_space)
   \<and> ggml_opencog_rule_inheritance_conclusion full_inheritance_space [3, 4]
       = (None, full_inheritance_space)"
proof -
  let ?t = "\<lparr>strength = 1/2, confidence = 1/2, count = 1::real\<rparr>"
  let ?ab = "\<lparr>type = OPENCOG_ATOM_INHERITANCE_LINK, name = None, tv = ?t, outgoing = [0, 1]\<rparr>"
  let ?bc = "\<lparr>type = OPENCOG_ATOM_INHERITANCE_LINK, name = None, tv = ?t, outgoing = [1, 2]\<rparr>"
  let ?d = "\<lparr>strength = 1/4, confidence = 9/40, count = 1::real\<rparr>"
  let ?ac = "\<lparr>type = OPENCOG_ATOM_INHERITANCE_LINK, name = None, tv = ?d, outgoing = [0, 2]\<rparr>"
  have pre: "ggml_opencog_rule_inheritance_precondition inheritance_space [3, 4]"
    by (simp add: ggml_opencog_rule_inheritance_precondition_def inheritance_space_def
          n_outgoing_def)
  have pre': "ggml_opencog_rule_inheritance_precondition full_inheritance_space [3, 4]"
    by (simp add: ggml_opencog_rule_inheritance_precondition_def full_inheritance_space_def
          inheritance_space_def n_outgoing_def)
  have i1: "?ab = heap inheritance_space ! ([3, 4] ! 0)"
    and i2: "?bc = heap inheritance_space ! ([3, 4] ! 1)"
    by (simp_all add: inheritance_space_def)
  have j1: "?ab = heap full_inheritance_space ! ([3, 4] ! 0)"
    and j2: "?bc = heap full_inheritance_space ! ([3, 4] ! 1)"
    by (simp_all add: full_inheritance_space_def inheritance_space_def)
  have d: "?d = ggml_opencog_tv_create (strength (tv ?ab) * strength (tv ?bc))
                  (confidence (tv ?ab) * confidence (tv ?bc) * 0.9)
                  (min (count (tv ?ab)) (count (tv ?bc)))"
    by (simp add: ggml_opencog_tv_create_def)
  have l: "?ac = \<lparr>type = OPENCOG_ATOM_INHERITANCE_LINK, name = None, tv = ?d,
                  outgoing = [outgoing ?ab ! 0, outgoing ?bc ! 1]\<rparr>"
    by simp
  have room: "int (n_atoms inheritance_space) < capacity inheritance_space"
    and len: "length (heap inheritance_space) = 5"
    by (simp_all add: inheritance_space_def n_atoms_def)
  have full: "capacity full_inheritance_space \<le> int (n_atoms full_inheritance_space)"
    by (simp add: full_inheritance_space_def inheritance_space_def n_atoms_def)
  have r: "tv_in_range ?t"
    by (simp add: tv_in_range_def)
  from inheritance_conclusion_effect [OF pre i1 i2 d l] room
  have a: "ggml_opencog_rule_inheritance_conclusion inheritance_space [3, 4]
             = (Some (length (heap inheritance_space)),
                inheritance_space\<lparr>heap := heap inheritance_space @ [?ac],
                                  atoms := atoms inheritance_space @ [length (heap inheritance_space)]\<rparr>)"
    by blast
  from inheritance_conclusion_effect [OF pre' j1 j2 d l] full
  have b: "ggml_opencog_rule_inheritance_conclusion full_inheritance_space [3, 4]
             = (None, full_inheritance_space)"
    by blast
  from a b pre pre' room full r show ?thesis
    unfolding len by blast
qed

section \<open>Termination of the chaining loops\<close>

lemma grows_refl: "grows st st"
  by (simp add: grows_def)

lemma grows_trans: "grows a b \<Longrightarrow> grows b c \<Longrightarrow> grows a c"
  by (auto simp add: grows_def)

lemma modus_ponens_conclusion_space:
  "ggml_opencog_rule_modus_ponens_conclusion st premises = (r, st') \<Longrightarrow>
   atoms st' = atoms st \<and> capacity st' = capacity st \<and> length (heap st') = length (heap st)"
  by (auto simp add: ggml_opencog_rule_modus_ponens_conclusion_def Let_def split: if_splits)

lemma link_create_space:
  "ggml_opencog_link_create st ty outg t = (r, st') \<Longrightarrow>
   capacity st' = capacity st \<and>
   ((r = None \<and> st' = st) \<or>
    (r = Some (length (heap st)) \<and> n_atoms st' = Suc (n_atoms st) \<and> int (n_atoms st) < capacity st))"
  by (auto simp add: ggml_opencog_link_create_def Let_def n_atoms_def split: if_splits)

lemma call_conclusion_grows:
  assumes "call_conclusion f st premises = (r, st')"
  shows "grows st st'"
proof (cases f)
  case Modus_ponens_conclusion
  with assms show ?thesis
    by (auto simp add: grows_def n_atoms_def dest: modus_ponens_conclusion_space)
next
  case Inheritance_conclusion
  with assms show ?thesis
    by (auto simp add: ggml_opencog_rule_inheritance_conclusion_def Let_def grows_def
          split: if_splits dest: link_create_space)
qed

lemma chain_premises_grows:
  assumes "chain_premises ure rule target i j m n st = Running m' n' st'
           \<or> chain_premises ure rule target i j m n st = Returned n' st'"
  shows "grows st st'"
proof (cases "call_precondition (precondition rule) st [atoms st ! i, atoms st ! j]")
  case False
  with assms show ?thesis
    by (simp add: chain_premises_def grows_refl)
next
  case True
  obtain r s where c: "call_conclusion (conclusion rule) st [atoms st ! i, atoms st ! j] = (r, s)"
    by (cases "call_conclusion (conclusion rule) st [atoms st ! i, atoms st ! j]")
  with True assms have "st' = s"
    by (auto simp add: chain_premises_def split: option.splits if_splits)
  with call_conclusion_grows [OF c] show ?thesis
    by simp
qed

lemma grows_measure:
  "grows st st' \<Longrightarrow> k < n_atoms st \<Longrightarrow>
   nat (capacity st' - int (n_atoms st')) < nat (capacity st - int (n_atoms st))
   \<or> (nat (capacity st' - int (n_atoms st')) = nat (capacity st - int (n_atoms st))
      \<and> n_atoms st' - Suc k < n_atoms st - k)"
  by (auto simp add: grows_def)

termination chain_pairs
proof (relation "(\<lambda>(ure, rule, target, i, j, m, n, st). nat (capacity st - int (n_atoms st)))
                   <*mlex*> measure (\<lambda>(ure, rule, target, i, j, m, n, st). n_atoms st - j)")
  show "wf ((\<lambda>(ure, rule, target, i, j, m, n, st). nat (capacity st - int (n_atoms st)))
              <*mlex*> measure (\<lambda>(ure, rule, target, i, j, m, n, st). n_atoms st - j))"
    by (simp add: wf_mlex)
next
  fix ure rule target i j m n st m' n' st'
  assume j: "j < n_atoms st"
    and r: "chain_premises ure rule target i j m n st = Running m' n' st'"
  from chain_premises_grows [of ure rule target i j m n st m' n' st'] r
  have "grows st st'" by simp
  from grows_measure [OF this j]
  show "((ure, rule, target, i, j + 1, m', n', st'), (ure, rule, target, i, j, m, n, st))
      \<in> (\<lambda>(ure, rule, target, i, j, m, n, st). nat (capacity st - int (n_atoms st)))
          <*mlex*> measure (\<lambda>(ure, rule, target, i, j, m, n, st). n_atoms st - j)"
    by (auto simp add: mlex_prod_def)
qed

lemma chain_pairs_grows:
  "chain_pairs ure rule target i j m n st = Running m' n' st'
   \<or> chain_pairs ure rule target i j m n st = Returned n' st' \<Longrightarrow> grows st st'"
proof (induction ure rule target i j m n st rule: chain_pairs.induct)
  case (1 ure rule target i j m n st)
  show ?case
  proof (cases "j < n_atoms st")
    case False
    with "1.prems" show ?thesis
      by (simp add: grows_refl)
  next
    case True
    show ?thesis
    proof (cases "chain_premises ure rule target i j m n st")
      case (Returned k s)
      with True "1.prems" have "st' = s"
        by simp
      with Returned chain_premises_grows [of ure rule target i j m n st _ k s] show ?thesis
        by simp
    next
      case (Running m1 n1 s1)
      with True "1.prems"
      have "chain_pairs ure rule target i (j + 1) m1 n1 s1 = Running m' n' st'
            \<or> chain_pairs ure rule target i (j + 1) m1 n1 s1 = Returned n' st'"
        by simp
      with "1.IH" [OF True Running] have "grows s1 st'" .
      moreover from Running chain_premises_grows [of ure rule target i j m n st m1 n1 s1]
      have "grows st s1" by simp
      ultimately show ?thesis
        by (rule grows_trans [rotated])
    qed
  qed
qed

termination chain_atoms
proof (relation "(\<lambda>(ure, rule, target, i, m, n, st). nat (capacity st - int (n_atoms st)))
                   <*mlex*> measure (\<lambda>(ure, rule, target, i, m, n, st). n_atoms st - i)")
  show "wf ((\<lambda>(ure, rule, target, i, m, n, st). nat (capacity st - int (n_atoms st)))
              <*mlex*> measure (\<lambda>(ure, rule, target, i, m, n, st). n_atoms st - i))"
    by (simp add: wf_mlex)
next
  fix ure rule target i m n st m' n' st'
  assume i: "i < n_atoms st"
    and r: "chain_pairs ure rule target i (i + 1) m n st = Running m' n' st'"
  from chain_pairs_grows [of ure rule target i "i + 1" m n st m' n' st'] r
  have "grows st st'" by simp
  from grows_measure [OF this i]
  show "((ure, rule, target, i + 1, m', n', st'), (ure, rule, target, i, m, n, st))
      \<in> (\<lambda>(ure, rule, target, i, m, n, st). nat (capacity st - int (n_atoms st)))
          <*mlex*> measure (\<lambda>(ure, rule, target, i, m, n, st). n_atoms st - i)"
    by (auto simp add: mlex_prod_def)
qed

termination chain_iterations
  by (relation "measure (\<lambda>(ure, target, iter, n, st). nat (max_iterations ure - int iter))") auto

text \<open>The functions that list the conclusion calls recurse as the loops do.\<close>

termination pairs_log
proof (relation "(\<lambda>(ure, rule, target, i, j, m, n, st). nat (capacity st - int (n_atoms st)))
                   <*mlex*> measure (\<lambda>(ure, rule, target, i, j, m, n, st). n_atoms st - j)")
  show "wf ((\<lambda>(ure, rule, target, i, j, m, n, st). nat (capacity st - int (n_atoms st)))
              <*mlex*> measure (\<lambda>(ure, rule, target, i, j, m, n, st). n_atoms st - j))"
    by (simp add: wf_mlex)
next
  fix ure rule target i j m n st m' n' st'
  assume j: "j < n_atoms st"
    and r: "chain_premises ure rule target i j m n st = Running m' n' st'"
  from chain_premises_grows [of ure rule target i j m n st m' n' st'] r
  have "grows st st'" by simp
  from grows_measure [OF this j]
  show "((ure, rule, target, i, j + 1, m', n', st'), (ure, rule, target, i, j, m, n, st))
      \<in> (\<lambda>(ure, rule, target, i, j, m, n, st). nat (capacity st - int (n_atoms st)))
          <*mlex*> measure (\<lambda>(ure, rule, target, i, j, m, n, st). n_atoms st - j)"
    by (auto simp add: mlex_prod_def)
qed

termination atoms_log
proof (relation "(\<lambda>(ure, rule, target, i, m, n, st). nat (capacity st - int (n_atoms st)))
                   <*mlex*> measure (\<lambda>(ure, rule, target, i, m, n, st). n_atoms st - i)")
  show "wf ((\<lambda>(ure, rule, target, i, m, n, st). nat (capacity st - int (n_atoms st)))
              <*mlex*> measure (\<lambda>(ure, rule, target, i, m, n, st). n_atoms st - i))"
    by (simp add: wf_mlex)
next
  fix ure rule target i m n st m' n' st'
  assume i: "i < n_atoms st"
    and r: "chain_pairs ure rule target i (i + 1) m n st = Running m' n' st'"
  from chain_pairs_grows [of ure rule target i "i + 1" m n st m' n' st'] r
  have "grows st st'" by simp
  from grows_measure [OF this i]
  show "((ure, rule, target, i + 1, m', n', st'), (ure, rule, target, i, m, n, st))
      \<in> (\<lambda>(ure, rule, target, i, m, n, st). nat (capacity st - int (n_atoms st)))
          <*mlex*> measure (\<lambda>(ure, rule, target, i, m, n, st). n_atoms st - i)"
    by (auto simp add: mlex_prod_def)
qed

termination iterations_log
  by (relation "measure (\<lambda>(ure, target, iter, n, st). nat (max_iterations ure - int iter))") auto

section \<open>Properties of forward chaining\<close>

subsection \<open>A rejected conclusion\<close>

text \<open>
  C3: let the pair \<open>(i, j)\<close> satisfy the precondition of a rule and let the confidence of
  the conclusion be below \<open>min_confidence\<close>. Then the body of the loop leaves
  \<open>made_inference\<close> and \<open>inferences_made\<close> as they were, and continues with the memory
  as the conclusion call left it: for modus ponens, \<open>Q\<close> carries the OR-combination of its
  truth value with the derived one; for inheritance transitivity (in an AtomSpace with
  room), the new link \<open>A \<rightarrow> C\<close> has been appended.
\<close>

theorem rejected_conclusion_still_mutates:
  assumes "premises = [atoms st ! i, atoms st ! j]"
    and "a1 = heap st ! (atoms st ! i)"
    and "a2 = heap st ! (atoms st ! j)"
    and "q = outgoing a2 ! 1"
    and "merged = ggml_opencog_tv_or (tv (heap st ! q))
                    (ggml_opencog_tv_create (strength (tv a1) * strength (tv a2))
                       (confidence (tv a1) * confidence (tv a2))
                       (min (count (tv a1)) (count (tv a2))))"
    and "derived = ggml_opencog_tv_create (strength (tv a1) * strength (tv a2))
                     (confidence (tv a1) * confidence (tv a2) * 0.9)
                     (min (count (tv a1)) (count (tv a2)))"
    and "link = \<lparr>type = OPENCOG_ATOM_INHERITANCE_LINK, name = None, tv = derived,
                 outgoing = [outgoing a1 ! 0, outgoing a2 ! 1]\<rparr>"
  shows "(precondition rule = Modus_ponens_precondition \<and>
          conclusion rule = Modus_ponens_conclusion \<and>
          ggml_opencog_rule_modus_ponens_precondition st premises \<and>
          live st q \<and> confidence merged < min_confidence ure \<longrightarrow>
            chain_premises ure rule target i j made_inference inferences_made st
              = Running made_inference inferences_made
                  (st\<lparr>heap := (heap st)[q := (heap st ! q)\<lparr>tv := merged\<rparr>]\<rparr>))
         \<and> (precondition rule = Inheritance_precondition \<and>
            conclusion rule = Inheritance_conclusion \<and>
            ggml_opencog_rule_inheritance_precondition st premises \<and>
            int (n_atoms st) < capacity st \<and> confidence derived < min_confidence ure \<longrightarrow>
              chain_premises ure rule target i j made_inference inferences_made st
                = Running made_inference inferences_made
                    (st\<lparr>heap := heap st @ [link], atoms := atoms st @ [length (heap st)]\<rparr>))"
proof (intro conjI impI; elim conjE)
  assume r: "precondition rule = Modus_ponens_precondition"
    "conclusion rule = Modus_ponens_conclusion"
    and pre: "ggml_opencog_rule_modus_ponens_precondition st premises"
    and q: "live st q" and low: "confidence merged < min_confidence ure"
  let ?st' = "st\<lparr>heap := (heap st)[q := (heap st ! q)\<lparr>tv := merged\<rparr>]\<rparr>"
  from pre assms have c: "ggml_opencog_rule_modus_ponens_conclusion st premises = (Some q, ?st')"
    by (simp add: ggml_opencog_rule_modus_ponens_conclusion_def Let_def)
  from q have "confidence (tv (heap ?st' ! q)) = confidence merged"
    by (simp add: live_def)
  with low have "\<not> min_confidence ure \<le> confidence (tv (heap ?st' ! q))"
    by simp
  with r pre c assms(1)
  show "chain_premises ure rule target i j made_inference inferences_made st
          = Running made_inference inferences_made ?st'"
    by (simp add: chain_premises_def)
next
  assume r: "precondition rule = Inheritance_precondition"
    "conclusion rule = Inheritance_conclusion"
    and pre: "ggml_opencog_rule_inheritance_precondition st premises"
    and room: "int (n_atoms st) < capacity st"
    and low: "confidence derived < min_confidence ure"
  let ?st' = "st\<lparr>heap := heap st @ [link], atoms := atoms st @ [length (heap st)]\<rparr>"
  from pre room assms
  have c: "ggml_opencog_rule_inheritance_conclusion st premises = (Some (length (heap st)), ?st')"
    by (simp add: ggml_opencog_rule_inheritance_conclusion_def ggml_opencog_link_create_def Let_def)
  have "confidence (tv (heap ?st' ! length (heap st))) = confidence derived"
    by (simp add: assms(7))
  with low have "\<not> min_confidence ure \<le> confidence (tv (heap ?st' ! length (heap st)))"
    by simp
  with r pre c assms(1)
  show "chain_premises ure rule target i j made_inference inferences_made st
          = Running made_inference inferences_made ?st'"
    by (simp add: chain_premises_def)
qed

theorem rejected_conclusion_still_mutates_witness:
  "ggml_opencog_rule_modus_ponens_precondition implication_space [0, 3]
   \<and> chain_premises modus_ponens_engine modus_ponens_rule None 0 3 False 0 implication_space
       = Running False 0
           (implication_space\<lparr>heap := (heap implication_space)
              [1 := \<lparr>type = OPENCOG_ATOM_CONCEPT_NODE, name = Some ''Q'',
                     tv = \<lparr>strength = 1, confidence = 1/4, count = 1\<rparr>, outgoing = []\<rparr>]\<rparr>)
   \<and> ggml_opencog_rule_inheritance_precondition inheritance_space [3, 4]
   \<and> chain_premises inheritance_engine inheritance_rule None 3 4 False 0 inheritance_space
       = Running False 0
           (inheritance_space
              \<lparr>heap := heap inheritance_space @
                 [\<lparr>type = OPENCOG_ATOM_INHERITANCE_LINK, name = None,
                   tv = \<lparr>strength = 1/4, confidence = 9/40, count = 1\<rparr>, outgoing = [0, 2]\<rparr>],
               atoms := atoms inheritance_space @ [5]\<rparr>)
   \<and> fst (ggml_opencog_ure_forward_chain inheritance_engine None inheritance_space) = 0
   \<and> n_atoms inheritance_space = 5
   \<and> n_atoms (snd (ggml_opencog_ure_forward_chain inheritance_engine None inheritance_space)) = 6"
proof -
  note inst = rejected_conclusion_still_mutates [OF refl refl refl refl refl refl refl]
  have run: "fst (ggml_opencog_ure_forward_chain inheritance_engine None inheritance_space) = 0"
    "n_atoms inheritance_space = 5"
    "n_atoms (snd (ggml_opencog_ure_forward_chain inheritance_engine None inheritance_space)) = 6"
    by code_simp+
  have mp_pre: "ggml_opencog_rule_modus_ponens_precondition implication_space
                  [atoms implication_space ! 0, atoms implication_space ! 3]"
    by (simp add: ggml_opencog_rule_modus_ponens_precondition_def implication_space_def
          n_outgoing_def)
  have mp_atoms: "[atoms implication_space ! 0, atoms implication_space ! 3] = [0, 3]"
    by (simp add: implication_space_def)
  have mp_q: "outgoing (heap implication_space ! (atoms implication_space ! 3)) ! 1 = 1"
    by (simp add: implication_space_def)
  have mp_tv: "ggml_opencog_tv_or (tv (heap implication_space ! 1))
                 (ggml_opencog_tv_create
                    (strength (tv (heap implication_space ! (atoms implication_space ! 0)))
                     * strength (tv (heap implication_space ! (atoms implication_space ! 3))))
                    (confidence (tv (heap implication_space ! (atoms implication_space ! 0)))
                     * confidence (tv (heap implication_space ! (atoms implication_space ! 3))))
                    (min (count (tv (heap implication_space ! (atoms implication_space ! 0))))
                         (count (tv (heap implication_space ! (atoms implication_space ! 3))))))
               = \<lparr>strength = 1, confidence = 1/4, count = 1\<rparr>"
    by (simp add: implication_space_def ggml_opencog_tv_or_def ggml_opencog_tv_create_def)
  have mp_q_atom: "(heap implication_space ! 1)\<lparr>tv := \<lparr>strength = 1, confidence = 1/4, count = 1\<rparr>\<rparr>
                   = \<lparr>type = OPENCOG_ATOM_CONCEPT_NODE, name = Some ''Q'',
                      tv = \<lparr>strength = 1, confidence = 1/4, count = 1\<rparr>, outgoing = []\<rparr>"
    by (simp add: implication_space_def)
  have mp_rule: "precondition modus_ponens_rule = Modus_ponens_precondition"
    "conclusion modus_ponens_rule = Modus_ponens_conclusion"
    "min_confidence modus_ponens_engine = 1/2"
    by (simp_all add: modus_ponens_rule_def modus_ponens_engine_def ggml_opencog_ure_init_def
          ggml_opencog_ure_add_rule_def)
  have mp_live: "live implication_space 1"
    by (simp add: live_def implication_space_def)
  from inst [of modus_ponens_rule implication_space 0 3 modus_ponens_engine None False 0]
  have "chain_premises modus_ponens_engine modus_ponens_rule None 0 3 False 0 implication_space
       = Running False 0
           (implication_space\<lparr>heap := (heap implication_space)
              [1 := \<lparr>type = OPENCOG_ATOM_CONCEPT_NODE, name = Some ''Q'',
                     tv = \<lparr>strength = 1, confidence = 1/4, count = 1\<rparr>, outgoing = []\<rparr>]\<rparr>)"
    unfolding mp_q mp_tv mp_q_atom using mp_pre mp_rule mp_live by simp
  then have mp: "chain_premises modus_ponens_engine modus_ponens_rule None 0 3 False 0 implication_space
       = Running False 0
           (implication_space\<lparr>heap := (heap implication_space)
              [1 := \<lparr>type = OPENCOG_ATOM_CONCEPT_NODE, name = Some ''Q'',
                     tv = \<lparr>strength = 1, confidence = 1/4, count = 1\<rparr>, outgoing = []\<rparr>]\<rparr>)" .
  have inh_pre: "ggml_opencog_rule_inheritance_precondition inheritance_space
                   [atoms inheritance_space ! 3, atoms inheritance_space ! 4]"
    by (simp add: ggml_opencog_rule_inheritance_precondition_def inheritance_space_def
          n_outgoing_def)
  have inh_atoms: "[atoms inheritance_space ! 3, atoms inheritance_space ! 4] = [3, 4]"
    by (simp add: inheritance_space_def)
  have inh_tv: "ggml_opencog_tv_create
                  (strength (tv (heap inheritance_space ! (atoms inheritance_space ! 3)))
                   * strength (tv (heap inheritance_space ! (atoms inheritance_space ! 4))))
                  (confidence (tv (heap inheritance_space ! (atoms inheritance_space ! 3)))
                   * confidence (tv (heap inheritance_space ! (atoms inheritance_space ! 4))) * 0.9)
                  (min (count (tv (heap inheritance_space ! (atoms inheritance_space ! 3))))
                       (count (tv (heap inheritance_space ! (atoms inheritance_space ! 4)))))
                = \<lparr>strength = 1/4, confidence = 9/40, count = 1\<rparr>"
    by (simp add: inheritance_space_def ggml_opencog_tv_create_def)
  have inh_out: "[outgoing (heap inheritance_space ! (atoms inheritance_space ! 3)) ! 0,
                  outgoing (heap inheritance_space ! (atoms inheritance_space ! 4)) ! 1] = [0, 2]"
    by (simp add: inheritance_space_def)
  have inh_len: "length (heap inheritance_space) = 5"
    by (simp add: inheritance_space_def)
  have inh_rule: "precondition inheritance_rule = Inheritance_precondition"
    "conclusion inheritance_rule = Inheritance_conclusion"
    "min_confidence inheritance_engine = 1/2"
    by (simp_all add: inheritance_rule_def inheritance_engine_def ggml_opencog_ure_init_def
          ggml_opencog_ure_add_rule_def)
  have inh_room: "int (n_atoms inheritance_space) < capacity inheritance_space"
    by (simp add: inheritance_space_def n_atoms_def)
  from inst [of inheritance_rule inheritance_space 3 4 inheritance_engine None False 0]
  have inh: "chain_premises inheritance_engine inheritance_rule None 3 4 False 0 inheritance_space
       = Running False 0
           (inheritance_space
              \<lparr>heap := heap inheritance_space @
                 [\<lparr>type = OPENCOG_ATOM_INHERITANCE_LINK, name = None,
                   tv = \<lparr>strength = 1/4, confidence = 9/40, count = 1\<rparr>, outgoing = [0, 2]\<rparr>],
               atoms := atoms inheritance_space @ [5]\<rparr>)"
    unfolding inh_tv inh_out inh_len using inh_pre inh_rule inh_room by simp
  from mp inh mp_pre inh_pre run show ?thesis
    unfolding mp_atoms inh_atoms by blast
qed

subsection \<open>Reaching the target\<close>

lemma log_ok_Nil: "log_ok target n st [] (Running m n st)"
  by (simp add: log_ok_def memory_after_def)

lemma memory_after_append:
  "memory_after st (es1 @ es2) = memory_after (memory_after st es1) es2"
  by (simp add: memory_after_def)

lemma log_ok_append:
  assumes "log_ok target n st es1 (Running m1 n1 s1)" "log_ok target n1 s1 es2 r"
  shows "log_ok target n st (es1 @ es2) r"
proof (cases r)
  case (Running m' n' st')
  with assms show ?thesis
    by (auto simp add: log_ok_def memory_after_append)
next
  case (Returned n' st')
  with assms show ?thesis
    by (auto simp add: log_ok_def memory_after_append butlast_append)
qed

lemma chain_premises_log_ok:
  "log_ok target n st (premises_log ure rule i j st) (chain_premises ure rule target i j m n st)"
  by (auto simp add: log_ok_def hits_def memory_after_def premises_log_def chain_premises_def
        Let_def split: prod.splits option.splits)

lemma chain_pairs_log_ok:
  "log_ok target n st (pairs_log ure rule target i j m n st)
     (chain_pairs ure rule target i j m n st)"
proof (induction ure rule target i j m n st rule: chain_pairs.induct)
  case (1 ure rule target i j m n st)
  show ?case
  proof (cases "j < n_atoms st")
    case False
    then show ?thesis
      by (simp add: log_ok_Nil)
  next
    case True
    note step = chain_premises_log_ok [of target n st ure rule i j m]
    show ?thesis
    proof (cases "chain_premises ure rule target i j m n st")
      case (Returned k s)
      with True step show ?thesis
        by simp
    next
      case (Running m1 n1 s1)
      from "1.IH" [OF True Running] step Running
      have "log_ok target n st
              (premises_log ure rule i j st @ pairs_log ure rule target i (j + 1) m1 n1 s1)
              (chain_pairs ure rule target i (j + 1) m1 n1 s1)"
        by (intro log_ok_append [of target n st _ m1 n1 s1]) simp_all
      with True Running show ?thesis
        by simp
    qed
  qed
qed

lemma chain_atoms_log_ok:
  "log_ok target n st (atoms_log ure rule target i m n st)
     (chain_atoms ure rule target i m n st)"
proof (induction ure rule target i m n st rule: chain_atoms.induct)
  case (1 ure rule target i m n st)
  show ?case
  proof (cases "i < n_atoms st")
    case False
    then show ?thesis
      by (simp add: log_ok_Nil)
  next
    case True
    note step = chain_pairs_log_ok [of target n st ure rule i "i + 1" m]
    show ?thesis
    proof (cases "chain_pairs ure rule target i (i + 1) m n st")
      case (Returned k s)
      with True step show ?thesis
        by simp
    next
      case (Running m1 n1 s1)
      from "1.IH" [OF True Running] step Running
      have "log_ok target n st
              (pairs_log ure rule target i (i + 1) m n st @ atoms_log ure rule target (i + 1) m1 n1 s1)
              (chain_atoms ure rule target (i + 1) m1 n1 s1)"
        by (intro log_ok_append [of target n st _ m1 n1 s1]) simp_all
      with True Running show ?thesis
        by simp
    qed
  qed
qed

lemma chain_rules_log_ok:
  "log_ok target n st (rules_log ure rs target m n st) (chain_rules ure rs target m n st)"
proof (induction rs arbitrary: m n st)
  case Nil
  show ?case
    by (simp add: log_ok_Nil)
next
  case (Cons rule rest)
  note step = chain_atoms_log_ok [of target n st ure rule 0 m]
  show ?case
  proof (cases "chain_atoms ure rule target 0 m n st")
    case (Returned k s)
    with step show ?thesis
      by simp
  next
    case (Running m1 n1 s1)
    from Cons.IH [of n1 s1 m1] step Running
    have "log_ok target n st
            (atoms_log ure rule target 0 m n st @ rules_log ure rest target m1 n1 s1)
            (chain_rules ure rest target m1 n1 s1)"
      by (intro log_ok_append [of target n st _ m1 n1 s1]) simp_all
    with Running show ?thesis
      by simp
  qed
qed

lemma run_ok_Returned:
  assumes "log_ok target n st es (Returned k s)"
  shows "run_ok target n st es (k, s)"
proof -
  from assms have c: "k = n + of_nat (length (filter accepted es))"
    and l: "s = memory_after st es"
    and b: "\<forall>e \<in> set (butlast es). \<not> hits target e"
    by (simp_all add: log_ok_def)
  have "Suc i = length es" if i: "i < length es" and h: "hits target (es ! i)" for i
  proof -
    have "\<not> i < length es - 1"
    proof
      assume "i < length es - 1"
      then have len: "i < length (butlast es)"
        by simp
      then have "butlast es ! i = es ! i"
        by (simp add: nth_butlast)
      with nth_mem [OF len] b h show False
        by auto
    qed
    with i show ?thesis
      by simp
  qed
  with c l show ?thesis
    by (simp add: run_ok_def)
qed

lemma run_ok_Running:
  assumes "log_ok target n st es (Running m k s)"
  shows "run_ok target n st es (k, s)"
  using assms by (auto simp add: log_ok_def run_ok_def)

lemma run_ok_append:
  assumes "log_ok target n st es1 (Running m1 n1 s1)" "run_ok target n1 s1 es2 r"
  shows "run_ok target n st (es1 @ es2) r"
proof -
  from assms(1) have c: "n1 = n + of_nat (length (filter accepted es1))"
    and s1: "s1 = memory_after st es1"
    and no: "\<forall>e \<in> set es1. \<not> hits target e"
    by (simp_all add: log_ok_def)
  have "Suc i = length (es1 @ es2)"
    if i: "i < length (es1 @ es2)" and h: "hits target ((es1 @ es2) ! i)" for i
  proof (cases "i < length es1")
    case True
    with no h show ?thesis
      by (auto simp add: nth_append)
  next
    case False
    with i h have "i - length es1 < length es2" "hits target (es2 ! (i - length es1))"
      by (simp_all add: nth_append)
    with assms(2) have "Suc (i - length es1) = length es2"
      by (simp add: run_ok_def)
    with False show ?thesis
      by auto
  qed
  with c s1 assms(2) show ?thesis
    by (simp add: run_ok_def memory_after_append)
qed

lemma chain_iterations_run_ok:
  "run_ok target n st (iterations_log ure target iter n st)
     (chain_iterations ure target iter n st)"
proof (induction ure target iter n st rule: chain_iterations.induct)
  case (1 ure target iter n st)
  show ?case
  proof (cases "int iter < max_iterations ure")
    case False
    then show ?thesis
      by (simp add: run_ok_def memory_after_def)
  next
    case True
    note step = chain_rules_log_ok [of target n st ure "rules ure" False]
    show ?thesis
    proof (cases "chain_rules ure (rules ure) target False n st")
      case (Returned k s)
      with True step run_ok_Returned [of target n st _ k s] show ?thesis
        by simp
    next
      case (Running m1 n1 s1)
      show ?thesis
      proof (cases m1)
        case False
        with True Running step run_ok_Running [of target n st _ m1 n1 s1] show ?thesis
          by simp
      next
        case made: True
        from "1.IH" [OF True Running] made step Running
        have "run_ok target n st
                (rules_log ure (rules ure) target False n st @ iterations_log ure target (iter + 1) n1 s1)
                (chain_iterations ure target (iter + 1) n1 s1)"
          by (intro run_ok_append [of target n st _ m1 n1 s1]) simp_all
        with True Running made show ?thesis
          by simp
      qed
    qed
  qed
qed

lemma sint_counter:
  "n < 2 ^ 31 \<Longrightarrow> sint (of_nat n :: 32 word) = int n"
  by (simp add: signed_of_nat signed_take_bit_int_eq_self)

text \<open>
  The list of conclusion calls accounts for the whole effect of a run: the value
  returned is the number of accepted calls in the 32-bit counter, and the memory at the end is the memory the
  last call left (the initial memory when no call was made).
\<close>

lemma forward_chain_log_sound:
  "fst (ggml_opencog_ure_forward_chain ure target st)
     = of_nat (length (filter accepted (forward_chain_log ure target st)))
   \<and> snd (ggml_opencog_ure_forward_chain ure target st)
     = memory_after st (forward_chain_log ure target st)"
proof -
  have "run_ok target 0 st (forward_chain_log ure target st)
          (ggml_opencog_ure_forward_chain ure target st)"
    unfolding forward_chain_log_def ggml_opencog_ure_forward_chain_def
    by (rule chain_iterations_run_ok)
  then show ?thesis
    unfolding run_ok_def by simp
qed

text \<open>
  C2 (as stated): whenever a conclusion call produces the target atom, the loop stops at
  once and returns the number of inferences accepted so far. This fails when the
  conclusion is below \<open>min_confidence\<close>: with target \<open>Q\<close> (atom 1), the pair \<open>(0, 3)\<close>
  satisfies the modus ponens precondition, the conclusion call returns \<open>Q\<close> with
  confidence \<open>1/4 < 1/2\<close>, and the body of the loop does not return. It is the first
  conclusion call of the run; the loop goes on to a second call, which changes \<open>R\<close>
  (atom 2), and returns 1, not 0.
\<close>

theorem target_below_threshold_counterexample:
  "ggml_opencog_rule_modus_ponens_precondition implication_space [0, 3]
   \<and> fst (ggml_opencog_rule_modus_ponens_conclusion implication_space [0, 3]) = Some 1
   \<and> confidence (tv (heap (snd
        (ggml_opencog_rule_modus_ponens_conclusion implication_space [0, 3])) ! 1)) = 1/4
   \<and> min_confidence modus_ponens_engine = 1/2
   \<and> chain_premises modus_ponens_engine modus_ponens_rule (Some 1) 0 3 False 0 implication_space
       = Running False 0 (snd (ggml_opencog_rule_modus_ponens_conclusion implication_space [0, 3]))
   \<and> 0 < length (forward_chain_log modus_ponens_engine (Some 1) implication_space)
   \<and> produced (forward_chain_log modus_ponens_engine (Some 1) implication_space ! 0) = Some 1
   \<and> \<not> accepted (forward_chain_log modus_ponens_engine (Some 1) implication_space ! 0)
   \<and> length (forward_chain_log modus_ponens_engine (Some 1) implication_space) = 2
   \<and> fst (ggml_opencog_ure_forward_chain modus_ponens_engine (Some 1) implication_space) = 1
   \<and> strength (tv (heap (after
        (forward_chain_log modus_ponens_engine (Some 1) implication_space ! 0)) ! 2)) = 1/2
   \<and> strength (tv (heap (snd
        (ggml_opencog_ure_forward_chain modus_ponens_engine (Some 1) implication_space)) ! 2)) = 1"
  by code_simp

text \<open>
  C2 (amended): whenever a conclusion call of a run with a non-null target produces the
  target atom and is accepted (its confidence is at least \<open>min_confidence\<close>), it is the
  last conclusion call of the run, the run ends with the memory as that call left it, and
  the value returned is the number of conclusions accepted in the run, this one included,
  as the 32-bit counter holds it: the number itself while it is below \<open>2\<^sup>3\<^sup>1\<close>.
\<close>

theorem target_stops_chain:
  assumes "k < length (forward_chain_log ure (Some t) st)"
    and "produced (forward_chain_log ure (Some t) st ! k) = Some t"
    and "accepted (forward_chain_log ure (Some t) st ! k)"
  shows "Suc k = length (forward_chain_log ure (Some t) st)
         \<and> snd (ggml_opencog_ure_forward_chain ure (Some t) st)
             = after (forward_chain_log ure (Some t) st ! k)
         \<and> fst (ggml_opencog_ure_forward_chain ure (Some t) st)
             = of_nat (length (filter accepted (forward_chain_log ure (Some t) st)))
         \<and> (length (filter accepted (forward_chain_log ure (Some t) st)) < 2 ^ 31 \<longrightarrow>
              sint (fst (ggml_opencog_ure_forward_chain ure (Some t) st))
                = int (length (filter accepted (forward_chain_log ure (Some t) st))))"
proof -
  let ?es = "forward_chain_log ure (Some t) st"
  let ?r = "ggml_opencog_ure_forward_chain ure (Some t) st"
  have r: "run_ok (Some t) 0 st ?es ?r"
    unfolding forward_chain_log_def ggml_opencog_ure_forward_chain_def
    by (rule chain_iterations_run_ok)
  from assms(2,3) have h: "hits (Some t) (?es ! k)"
    unfolding hits_def by (rule conjI)
  from r have n: "fst ?r = of_nat (length (filter accepted ?es))"
    unfolding run_ok_def by simp
  then have i: "length (filter accepted ?es) < 2 ^ 31 \<longrightarrow>
                  sint (fst ?r) = int (length (filter accepted ?es))"
    by (simp add: sint_counter)
  from r have m: "snd ?r = memory_after st ?es"
    unfolding run_ok_def by simp
  from r have "\<forall>k < length ?es. hits (Some t) (?es ! k) \<longrightarrow> Suc k = length ?es"
    unfolding run_ok_def by simp
  with assms(1) h have l: "Suc k = length ?es"
    by blast
  then have "?es \<noteq> []" "length ?es - 1 = k"
    by auto
  then have "memory_after st ?es = after (?es ! k)"
    by (simp add: memory_after_def last_conv_nth)
  with n m l have "Suc k = length ?es \<and> snd ?r = after (?es ! k)
                   \<and> fst ?r = of_nat (length (filter accepted ?es))"
    by simp
  with i show ?thesis
    by blast
qed

theorem target_stops_chain_witness:
  "1 < length (forward_chain_log modus_ponens_engine (Some 2) implication_space)
   \<and> produced (forward_chain_log modus_ponens_engine (Some 2) implication_space ! 1) = Some 2
   \<and> accepted (forward_chain_log modus_ponens_engine (Some 2) implication_space ! 1)
   \<and> length (forward_chain_log modus_ponens_engine (Some 2) implication_space) = 2
   \<and> fst (ggml_opencog_ure_forward_chain modus_ponens_engine (Some 2) implication_space) = 1
   \<and> sint (fst (ggml_opencog_ure_forward_chain modus_ponens_engine (Some 2) implication_space)) = 1
   \<and> snd (ggml_opencog_ure_forward_chain modus_ponens_engine (Some 2) implication_space)
       = after (forward_chain_log modus_ponens_engine (Some 2) implication_space ! 1)"
proof -
  let ?es = "forward_chain_log modus_ponens_engine (Some 2) implication_space"
  have a: "1 < length ?es"
    by code_simp
  have b: "produced (?es ! 1) = Some 2"
    by code_simp
  have c: "accepted (?es ! 1)"
    by code_simp
  have d: "length (filter accepted ?es) = 1"
    by code_simp
  from target_stops_chain [OF a b c] have
    "Suc 1 = length ?es
     \<and> snd (ggml_opencog_ure_forward_chain modus_ponens_engine (Some 2) implication_space)
         = after (?es ! 1)
     \<and> fst (ggml_opencog_ure_forward_chain modus_ponens_engine (Some 2) implication_space)
         = of_nat (length (filter accepted ?es))
     \<and> (length (filter accepted ?es) < 2 ^ 31 \<longrightarrow>
          sint (fst (ggml_opencog_ure_forward_chain modus_ponens_engine (Some 2) implication_space))
            = int (length (filter accepted ?es)))" .
  with a b c show ?thesis
    unfolding d by simp
qed

subsection \<open>Termination and the fixpoint\<close>

lemma chain_iterations_passes:
  "\<exists>k \<le> nat (max_iterations ure - int iter).
     chain_iterations ure target iter n st = (chain_pass ure target ^^ k) (n, st)"
proof (induction ure target iter n st rule: chain_iterations.induct)
  case (1 ure target iter n st)
  show ?case
  proof (cases "int iter < max_iterations ure")
    case False
    then have "chain_iterations ure target iter n st = (chain_pass ure target ^^ 0) (n, st)"
      by simp
    then show ?thesis
      by blast
  next
    case True
    then have one: "1 \<le> nat (max_iterations ure - int iter)"
      by simp
    show ?thesis
    proof (cases "chain_rules ure (rules ure) target False n st")
      case (Returned n' st')
      with True have "chain_iterations ure target iter n st = (chain_pass ure target ^^ 1) (n, st)"
        by (simp add: chain_pass_def)
      with one show ?thesis
        by blast
    next
      case (Running m' n' st')
      then have pass: "chain_pass ure target (n, st) = (n', st')"
        by (simp add: chain_pass_def)
      show ?thesis
      proof (cases m')
        case False
        with True Running
        have "chain_iterations ure target iter n st = (chain_pass ure target ^^ 1) (n, st)"
          by (simp add: chain_pass_def)
        with one show ?thesis
          by blast
      next
        case made: True
        from "1.IH" [OF True Running] made
        obtain k where k: "k \<le> nat (max_iterations ure - int (iter + 1))"
          and r: "chain_iterations ure target (iter + 1) n' st' = (chain_pass ure target ^^ k) (n', st')"
          by auto
        from True Running made r pass
        have "chain_iterations ure target iter n st = (chain_pass ure target ^^ Suc k) (n, st)"
          by (simp add: funpow_swap1)
        moreover from k True have "Suc k \<le> nat (max_iterations ure - int iter)"
          by simp
        ultimately show ?thesis
          by blast
      qed
    qed
  qed
qed

lemma chain_premises_idle:
  "\<not> call_precondition (precondition rule) st [atoms st ! i, atoms st ! j] \<Longrightarrow>
   chain_premises ure rule target i j m n st = Running m n st"
  by (simp add: chain_premises_def)

lemma chain_pairs_idle:
  "(\<forall>j'. j \<le> j' \<and> j' < n_atoms st \<longrightarrow>
      \<not> call_precondition (precondition rule) st [atoms st ! i, atoms st ! j']) \<Longrightarrow>
   chain_pairs ure rule target i j m n st = Running m n st"
proof (induction ure rule target i j m n st rule: chain_pairs.induct)
  case (1 ure rule target i j m n st)
  show ?case
  proof (cases "j < n_atoms st")
    case False
    then show ?thesis
      by simp
  next
    case True
    with "1.prems" have step: "chain_premises ure rule target i j m n st = Running m n st"
      by (intro chain_premises_idle) simp
    from "1.prems" have "\<forall>j'. j + 1 \<le> j' \<and> j' < n_atoms st \<longrightarrow>
        \<not> call_precondition (precondition rule) st [atoms st ! i, atoms st ! j']"
      by simp
    from "1.IH" [OF True step this] True step show ?thesis
      by simp
  qed
qed

lemma chain_atoms_idle:
  "(\<forall>i' j'. i \<le> i' \<and> i' < j' \<and> j' < n_atoms st \<longrightarrow>
      \<not> call_precondition (precondition rule) st [atoms st ! i', atoms st ! j']) \<Longrightarrow>
   chain_atoms ure rule target i m n st = Running m n st"
proof (induction ure rule target i m n st rule: chain_atoms.induct)
  case (1 ure rule target i m n st)
  show ?case
  proof (cases "i < n_atoms st")
    case False
    then show ?thesis
      by simp
  next
    case True
    from "1.prems" have step: "chain_pairs ure rule target i (i + 1) m n st = Running m n st"
      by (intro chain_pairs_idle) simp
    from "1.prems" have "\<forall>i' j'. i + 1 \<le> i' \<and> i' < j' \<and> j' < n_atoms st \<longrightarrow>
        \<not> call_precondition (precondition rule) st [atoms st ! i', atoms st ! j']"
      by simp
    from "1.IH" [OF True step this] True step show ?thesis
      by simp
  qed
qed

lemma chain_rules_idle:
  "(\<forall>rule \<in> set rs. \<forall>i j. i < j \<and> j < n_atoms st \<longrightarrow>
      \<not> call_precondition (precondition rule) st [atoms st ! i, atoms st ! j]) \<Longrightarrow>
   chain_rules ure rs target m n st = Running m n st"
proof (induction rs)
  case Nil
  show ?case
    by simp
next
  case (Cons rule rest)
  from Cons.prems have "chain_atoms ure rule target 0 m n st = Running m n st"
    by (intro chain_atoms_idle) simp
  with Cons show ?case
    by simp
qed

lemma chain_iterations_idle:
  assumes "chain_rules ure (rules ure) target False n st = Running False n st"
  shows "chain_iterations ure target iter n st = (n, st)"
  using assms by (subst chain_iterations.simps) simp

lemma loop_space_pass:
  "chain_rules loop_engine (rules loop_engine) None False n loop_space
     = Running True (n + 2) loop_space"
  by (simp add: loop_engine_def loop_space_def ggml_opencog_ure_init_def
        ggml_opencog_ure_add_rule_def modus_ponens_rule_def chain_premises_def n_atoms_def
        n_outgoing_def ggml_opencog_rule_modus_ponens_precondition_def
        ggml_opencog_rule_modus_ponens_conclusion_def ggml_opencog_tv_or_def
        ggml_opencog_tv_create_def Let_def)

lemma loop_space_iterations:
  "k = 1073741824 - iter \<Longrightarrow> iter \<le> 1073741824 \<Longrightarrow>
   chain_iterations loop_engine None iter n loop_space = (n + 2 * of_nat k, loop_space)"
proof (induction k arbitrary: iter n)
  case 0
  then have "\<not> int iter < max_iterations loop_engine"
    by (simp add: loop_engine_def ggml_opencog_ure_init_def ggml_opencog_ure_add_rule_def)
  then show ?case
    by (subst chain_iterations.simps) simp
next
  case (Suc k)
  then have less: "int iter < max_iterations loop_engine"
    by (simp add: loop_engine_def ggml_opencog_ure_init_def ggml_opencog_ure_add_rule_def)
  from Suc.prems have "k = 1073741824 - (iter + 1)" "iter + 1 \<le> 1073741824"
    by simp_all
  then have "chain_iterations loop_engine None (iter + 1) (n + 2) loop_space
               = (n + 2 + 2 * of_nat k, loop_space)"
    by (rule Suc.IH)
  with less loop_space_pass [of n] show ?case
    by (subst chain_iterations.simps) simp
qed

text \<open>
  C8 (as stated): forward chaining with a null target returns a non-negative count. This
  fails once \<open>2\<^sup>3\<^sup>1\<close> inferences have been accepted: on \<open>P\<close> with two implications \<open>P \<rightarrow> P\<close>
  and \<open>max_iterations = 2\<^sup>3\<^sup>0\<close>, each pass accepts two inferences, and the \<^verbatim>\<open>int\<close> returned
  is \<open>- 2\<^sup>3\<^sup>1\<close>.
\<close>

theorem forward_chain_count_wraps_counterexample:
  "max_iterations loop_engine = 1073741824
   \<and> fst (ggml_opencog_ure_forward_chain loop_engine None loop_space) = 2147483648
   \<and> sint (fst (ggml_opencog_ure_forward_chain loop_engine None loop_space)) = - 2147483648
   \<and> sint (fst (ggml_opencog_ure_forward_chain loop_engine None loop_space)) < 0
   \<and> snd (ggml_opencog_ure_forward_chain loop_engine None loop_space) = loop_space"
proof -
  have m: "max_iterations loop_engine = 1073741824"
    by (simp add: loop_engine_def ggml_opencog_ure_init_def ggml_opencog_ure_add_rule_def)
  have "ggml_opencog_ure_forward_chain loop_engine None loop_space
          = (0 + 2 * of_nat 1073741824, loop_space)"
    unfolding ggml_opencog_ure_forward_chain_def
    by (rule loop_space_iterations) simp_all
  then have r: "ggml_opencog_ure_forward_chain loop_engine None loop_space
                  = (2147483648, loop_space)"
    by simp
  have "sint (2147483648 :: 32 word) = - 2147483648"
    by simp
  with m r show ?thesis
    by simp
qed

text \<open>
  C8 (amended): with a null target, forward chaining (a total function: the termination
  proofs above) returns what at most \<open>max_iterations\<close> passes over the rules produce; the
  value returned is the number of accepted inferences in the 32-bit counter, which is
  that number itself, and so non-negative, whenever fewer than \<open>2\<^sup>3\<^sup>1\<close> inferences are
  accepted; when no pair of atoms satisfies the precondition of a registered rule it
  returns 0 and leaves the memory as it was; and so it does when no rule is registered
  (as in a rule engine fresh from \<^verbatim>\<open>ggml_opencog_ure_init\<close>) or the AtomSpace holds
  fewer than two atoms.
\<close>

theorem forward_chain_terminates:
  "(\<exists>k \<le> nat (max_iterations ure).
      ggml_opencog_ure_forward_chain ure None st = (chain_pass ure None ^^ k) (0, st))
   \<and> fst (ggml_opencog_ure_forward_chain ure None st)
       = of_nat (length (filter accepted (forward_chain_log ure None st)))
   \<and> (length (filter accepted (forward_chain_log ure None st)) < 2 ^ 31 \<longrightarrow>
        0 \<le> sint (fst (ggml_opencog_ure_forward_chain ure None st)) \<and>
        sint (fst (ggml_opencog_ure_forward_chain ure None st))
          = int (length (filter accepted (forward_chain_log ure None st))))
   \<and> ((\<forall>rule \<in> set (rules ure). \<forall>i j. i < j \<and> j < n_atoms st \<longrightarrow>
          \<not> call_precondition (precondition rule) st [atoms st ! i, atoms st ! j]) \<longrightarrow>
        ggml_opencog_ure_forward_chain ure None st = (0, st))
   \<and> (rules ure = [] \<or> n_atoms st < 2 \<longrightarrow>
        ggml_opencog_ure_forward_chain ure None st = (0, st))
   \<and> ggml_opencog_ure_forward_chain (ggml_opencog_ure_init max_iter min_conf) None st = (0, st)"
proof -
  have passes: "\<exists>k \<le> nat (max_iterations ure).
      ggml_opencog_ure_forward_chain ure None st = (chain_pass ure None ^^ k) (0, st)"
    using chain_iterations_passes [of ure 0 None 0 st]
    by (simp add: ggml_opencog_ure_forward_chain_def)
  have "run_ok None 0 st (forward_chain_log ure None st)
          (ggml_opencog_ure_forward_chain ure None st)"
    unfolding forward_chain_log_def ggml_opencog_ure_forward_chain_def
    by (rule chain_iterations_run_ok)
  then have count: "fst (ggml_opencog_ure_forward_chain ure None st)
                      = of_nat (length (filter accepted (forward_chain_log ure None st)))"
    by (simp add: run_ok_def)
  have small: "0 \<le> sint (fst (ggml_opencog_ure_forward_chain ure None st)) \<and>
        sint (fst (ggml_opencog_ure_forward_chain ure None st))
          = int (length (filter accepted (forward_chain_log ure None st)))"
    if "length (filter accepted (forward_chain_log ure None st)) < 2 ^ 31"
    unfolding count using sint_counter [OF that] by simp
  have idle: "ggml_opencog_ure_forward_chain ure None st = (0, st)"
    if "\<forall>rule \<in> set (rules ure). \<forall>i j. i < j \<and> j < n_atoms st \<longrightarrow>
          \<not> call_precondition (precondition rule) st [atoms st ! i, atoms st ! j]"
    unfolding ggml_opencog_ure_forward_chain_def
    by (intro chain_iterations_idle chain_rules_idle that)
  have "ggml_opencog_ure_forward_chain ure None st = (0, st)"
    if "rules ure = [] \<or> n_atoms st < 2"
  proof (rule idle)
    from that
    show "\<forall>rule \<in> set (rules ure). \<forall>i j. i < j \<and> j < n_atoms st \<longrightarrow>
          \<not> call_precondition (precondition rule) st [atoms st ! i, atoms st ! j]"
      by auto
  qed
  note few = this
  have "rules (ggml_opencog_ure_init max_iter min_conf) = []"
    by (simp add: ggml_opencog_ure_init_def)
  then have fresh: "ggml_opencog_ure_forward_chain (ggml_opencog_ure_init max_iter min_conf) None st
                      = (0, st)"
    unfolding ggml_opencog_ure_forward_chain_def
    by (intro chain_iterations_idle) simp
  from passes count small idle few fresh show ?thesis
    by blast
qed

theorem forward_chain_terminates_witness:
  "ggml_opencog_ure_forward_chain both_rules_engine None concept_space = (0, concept_space)
   \<and> n_atoms single_space < 2
   \<and> ggml_opencog_ure_forward_chain both_rules_engine None single_space = (0, single_space)
   \<and> length (filter accepted (forward_chain_log modus_ponens_engine None implication_space)) = 1
   \<and> sint (fst (ggml_opencog_ure_forward_chain modus_ponens_engine None implication_space)) = 1"
proof -
  have n: "n_atoms concept_space = 2"
    by (simp add: n_atoms_def concept_space_def)
  have pair: "i = 0 \<and> j = 1" if "i < j" "j < 2" for i j :: nat
    using that by auto
  have no: "\<not> call_precondition (precondition rule) concept_space
               [atoms concept_space ! 0, atoms concept_space ! 1]"
    if "rule \<in> set (rules both_rules_engine)" for rule
    using that
    by (auto simp add: both_rules_engine_def ggml_opencog_ure_init_def
          ggml_opencog_ure_add_rule_def modus_ponens_rule_def inheritance_rule_def
          ggml_opencog_rule_modus_ponens_precondition_def
          ggml_opencog_rule_inheritance_precondition_def concept_space_def)
  have h: "\<forall>rule \<in> set (rules both_rules_engine). \<forall>i j. i < j \<and> j < n_atoms concept_space \<longrightarrow>
          \<not> call_precondition (precondition rule) concept_space
               [atoms concept_space ! i, atoms concept_space ! j]"
    unfolding n using pair no by blast
  have s: "n_atoms single_space < 2"
    by (simp add: n_atoms_def single_space_def)
  have l: "length (filter accepted (forward_chain_log modus_ponens_engine None implication_space)) = 1"
    by code_simp
  from forward_chain_terminates [of both_rules_engine concept_space 0 0] h
  have a: "ggml_opencog_ure_forward_chain both_rules_engine None concept_space = (0, concept_space)"
    by blast
  from forward_chain_terminates [of both_rules_engine single_space 0 0] s
  have b: "ggml_opencog_ure_forward_chain both_rules_engine None single_space = (0, single_space)"
    by blast
  from forward_chain_terminates [of modus_ponens_engine implication_space 0 0]
  have "length (filter accepted (forward_chain_log modus_ponens_engine None implication_space))
          < 2 ^ 31 \<longrightarrow>
        sint (fst (ggml_opencog_ure_forward_chain modus_ponens_engine None implication_space))
          = int (length (filter accepted
                   (forward_chain_log modus_ponens_engine None implication_space)))"
    by blast
  then have c: "sint (fst (ggml_opencog_ure_forward_chain modus_ponens_engine None
                             implication_space)) = 1"
    unfolding l by simp
  from a s b l c show ?thesis
    by blast
qed

end
